theory Spec2Isabelle
  imports Main "HOL-Library.Sublist"
begin

section \<open>Strings as the agent uses them\<close>

text \<open>
  Python \<open>str\<close> values are modelled as \<^typ>\<open>string\<close>; a \<^typ>\<open>char\<close> stands for the code
  point of the same number (0 to 255).  The operations below are the \<open>str\<close> methods the
  agent calls: \<open>lower\<close>, \<open>strip\<close>, \<open>split\<close>, \<open>in\<close>, slicing and \<open>join\<close>.
\<close>

definition is_space :: "char \<Rightarrow> bool" where
  \<comment> \<open>\<open>str.isspace\<close> on one code point below 256: TAB..CR, FS..US, SPACE, NEL, NBSP\<close>
  "is_space c =
     (let n = (of_char c :: nat)
      in (9 \<le> n \<and> n \<le> 13) \<or> (28 \<le> n \<and> n \<le> 32) \<or> n = 133 \<or> n = 160)"

definition is_upper :: "char \<Rightarrow> bool" where
  \<comment> \<open>the code points below 256 that \<open>str.lower\<close> changes: A..Z and U+00C0..U+00DE without U+00D7\<close>
  "is_upper c =
     (let n = (of_char c :: nat)
      in (65 \<le> n \<and> n \<le> 90) \<or> (192 \<le> n \<and> n \<le> 222 \<and> n \<noteq> 215))"

definition lower_char :: "char \<Rightarrow> char" where
  \<comment> \<open>the lower-case code point is 32 above the upper-case one: bit 5 is set\<close>
  "lower_char c =
     (if is_upper c
      then (case c of Char b0 b1 b2 b3 b4 b5 b6 b7 \<Rightarrow> Char b0 b1 b2 b3 b4 True b6 b7)
      else c)"

definition lower :: "string \<Rightarrow> string" where
  "lower s = map lower_char s"

definition strip :: "string \<Rightarrow> string" where
  "strip s = rev (dropWhile is_space (rev (dropWhile is_space s)))"

fun split_ws_from :: "string \<Rightarrow> string \<Rightarrow> string list" where
  \<comment> \<open>\<open>str.split()\<close> without a separator; the first argument is the word being read, reversed\<close>
  "split_ws_from cur [] = (if cur = [] then [] else [rev cur])"
| "split_ws_from cur (c # cs) =
     (if is_space c
      then (if cur = [] then split_ws_from [] cs else rev cur # split_ws_from [] cs)
      else split_ws_from (c # cur) cs)"

definition split_ws :: "string \<Rightarrow> string list" where
  "split_ws s = split_ws_from [] s"

fun startswith :: "string \<Rightarrow> string \<Rightarrow> bool" where
  \<comment> \<open>\<open>startswith w s\<close> is \<open>s.startswith(w)\<close>\<close>
  "startswith [] s = True"
| "startswith (a # w) [] = False"
| "startswith (a # w) (c # s) = (a = c \<and> startswith w s)"

fun contains :: "string \<Rightarrow> string \<Rightarrow> bool" where
  \<comment> \<open>\<open>contains w s\<close> is Python's \<open>w in s\<close> on strings\<close>
  "contains w [] = (w = [])"
| "contains w (c # s) = (startswith w (c # s) \<or> contains w s)"

definition any_word_in :: "string list \<Rightarrow> string \<Rightarrow> bool" where
  \<comment> \<open>\<open>any(word in content for word in words)\<close>\<close>
  "any_word_in words content = list_ex (\<lambda>word. contains word content) words"

fun join :: "string \<Rightarrow> string list \<Rightarrow> string" where
  \<comment> \<open>\<open>sep.join(items)\<close>\<close>
  "join sep [] = []"
| "join sep [x] = x"
| "join sep (x # y # ys) = x @ sep @ join sep (y # ys)"

datatype py_error = IndexError | TypeError string | LibraryError string

text \<open>
  The exceptions that the modelled code raises itself.  \<open>TypeError t\<close> is the error of
  \<open>x in v\<close> for a value \<open>v\<close> of type \<open>t\<close> that is no container; \<open>LibraryError\<close> is an
  exception raised inside a library call, with its text.
\<close>

definition not_iterable :: "string \<Rightarrow> string" where
  \<comment> \<open>the text of that TypeError, in the wording of CPython 3.8 to 3.13\<close>
  "not_iterable type_name =
     ''argument of type '' @ [CHR 0x27] @ type_name @ [CHR 0x27] @ '' is not iterable''"

fun error_text :: "py_error \<Rightarrow> string" where
  \<comment> \<open>\<open>str(e)\<close>, as the f-strings of the log calls format an exception\<close>
  "error_text IndexError = ''list index out of range''"
| "error_text (TypeError type_name) = not_iterable type_name"
| "error_text (LibraryError txt) = txt"

datatype header_value = PyNone | HeaderObj string | Str string

text \<open>
  What \<open>email_message["From"]\<close> gives under the default policy of
  \<open>email.message_from_bytes\<close>: \<open>None\<close> when the message has no such header, an
  \<open>email.header.Header\<close> object when the raw header holds 8-bit bytes (\<open>HeaderObj s\<close>, with
  \<open>s\<close> its \<open>str()\<close> form), and a \<open>str\<close> otherwise.
\<close>

fun py_str :: "header_value \<Rightarrow> string" where
  \<comment> \<open>\<open>str(v)\<close>, which is also how an f-string formats \<open>{v}\<close>\<close>
  "py_str PyNone = ''None''"
| "py_str (HeaderObj s) = s"
| "py_str (Str s) = s"

fun is_str :: "header_value \<Rightarrow> bool" where
  \<comment> \<open>\<open>isinstance(v, str)\<close>\<close>
  "is_str (Str s) = True"
| "is_str v = False"

definition first_item :: "'a list \<Rightarrow> py_error + 'a" where
  \<comment> \<open>\<open>xs[0]\<close>\<close>
  "first_item xs = (case xs of [] \<Rightarrow> Inl IndexError | x # _ \<Rightarrow> Inr x)"

section \<open>Template reply generator (\<open>generate_improved_mock_reply\<close>)\<close>

record email_data =
  ed_id :: string
  ed_subject :: string
  ed_sender :: header_value
  ed_body :: string
  ed_date :: header_value

text \<open>
  The dictionary built at lines 205 to 211.  The subject is a \<open>str\<close> (lines 195 to 197 have
  decoded it), the body is the \<open>str\<close> that \<open>get_email_body\<close> returned; the sender and the
  date are the header values as the message gives them.
\<close>

definition extract_sender_name :: "header_value \<Rightarrow> py_error + string" where
  \<comment> \<open>lines 324 to 328 (and 285 to 289): the first name in front of the address;
      \<open>'<' in sender\<close> raises when the sender is \<open>None\<close> or a \<open>Header\<close> object\<close>
  "extract_sender_name sender =
     (case sender of
        PyNone \<Rightarrow> Inl (TypeError ''NoneType'')
      | HeaderObj h \<Rightarrow> Inl (TypeError ''Header'')
      | Str s \<Rightarrow>
          (if CHR ''<'' \<in> set s
           then (let name_part = strip (takeWhile (\<lambda>c. c \<noteq> CHR ''<'') s)
                 in if name_part \<noteq> [] then first_item (split_ws name_part) else Inr ''there'')
           else Inr ''there''))"

definition esc_n :: string where
  \<comment> \<open>what the source text \<open>\\n\<close> of these f-strings denotes: a backslash and the letter n\<close>
  "esc_n = [CHR 0x5C, CHR ''n'']"

definition line_break :: char where
  \<comment> \<open>the line-feed character, U+000A\<close>
  "line_break = CHR 0x0A"

definition reply_social :: "string \<Rightarrow> string" where
  "reply_social sender_name =
     ''Dear '' @ sender_name @ '','' @ esc_n @ esc_n
     @ ''Thank you for the invitation! I'd love to catch up. Let me check my schedule and I'll get back to you shortly with some available times.''
     @ esc_n @ esc_n @ ''Looking forward to it!''
     @ esc_n @ esc_n @ ''Best regards,'' @ esc_n @ ''Yash''"

definition reply_availability :: "string \<Rightarrow> string" where
  "reply_availability sender_name =
     ''Dear '' @ sender_name @ '','' @ esc_n @ esc_n
     @ ''Thanks for reaching out about my availability. I'll review my calendar and send you some time slots that work for both of us.''
     @ esc_n @ esc_n @ ''I'll get back to you within a few hours.''
     @ esc_n @ esc_n @ ''Best regards,'' @ esc_n @ ''Yash''"

definition reply_work :: "string \<Rightarrow> string" where
  "reply_work sender_name =
     ''Dear '' @ sender_name @ '','' @ esc_n @ esc_n
     @ ''Thank you for your message regarding work matters. I've received your request and will review it promptly.''
     @ esc_n @ esc_n @ ''I'll respond with the necessary information soon.''
     @ esc_n @ esc_n @ ''Best regards,'' @ esc_n @ ''Yash''"

definition reply_meeting :: "string \<Rightarrow> string" where
  "reply_meeting sender_name =
     ''Dear '' @ sender_name @ '','' @ esc_n @ esc_n
     @ ''Thank you for reaching out about scheduling a meeting. I'll review my calendar and get back to you shortly with my availability.''
     @ esc_n @ esc_n @ ''Best regards,'' @ esc_n @ ''Yash''"

definition reply_business :: "string \<Rightarrow> string" where
  "reply_business sender_name =
     ''Dear '' @ sender_name @ '','' @ esc_n @ esc_n
     @ ''Thank you for your message regarding the business opportunity. I'm interested in learning more about this collaboration.''
     @ esc_n @ esc_n @ ''I'll review the details and respond with my thoughts soon.''
     @ esc_n @ esc_n @ ''Best regards,'' @ esc_n @ ''Yash''"

definition reply_urgent :: "string \<Rightarrow> string" where
  "reply_urgent sender_name =
     ''Dear '' @ sender_name @ '','' @ esc_n @ esc_n
     @ ''I've received your urgent message and will prioritize reviewing it immediately. You can expect a detailed response within the next hour.''
     @ esc_n @ esc_n @ ''Best regards,'' @ esc_n @ ''Yash''"

definition reply_question :: "string \<Rightarrow> string" where
  "reply_question sender_name =
     ''Dear '' @ sender_name @ '','' @ esc_n @ esc_n
     @ ''Thank you for your question. I'll look into this and provide you with a comprehensive answer shortly.''
     @ esc_n @ esc_n @ ''Best regards,'' @ esc_n @ ''Yash''"

definition reply_default :: "string \<Rightarrow> string" where
  "reply_default sender_name =
     ''Dear '' @ sender_name @ '','' @ esc_n @ esc_n
     @ ''Thank you for your email. I've received your message and will review it carefully. I'll get back to you with a detailed response soon.''
     @ esc_n @ esc_n @ ''Best regards,'' @ esc_n @ ''Yash''"

definition scan_content :: "email_data \<Rightarrow> string" where
  \<comment> \<open>line 331: \<open>content = f"{subject} {body}"\<close> over the lower-cased subject and body\<close>
  "scan_content email_data =
     lower (ed_subject email_data) @ '' '' @ lower (ed_body email_data)"

definition generate_improved_mock_reply :: "email_data \<Rightarrow> py_error + string" where
  "generate_improved_mock_reply email_data =
     (case extract_sender_name (ed_sender email_data) of
        Inl e \<Rightarrow> Inl e
      | Inr sender_name \<Rightarrow>
          (let content = scan_content email_data
           in Inr
             (if any_word_in [''dinner'', ''lunch'', ''coffee'', ''drink'', ''hang out'', ''meet up''] content
              then reply_social sender_name
              else if any_word_in [''free'', ''available'', ''time'', ''when'', ''schedule''] content
              then reply_availability sender_name
              else if any_word_in [''leave'', ''office'', ''work'', ''meeting'', ''project''] content
              then reply_work sender_name
              else if any_word_in [''call'', ''appointment'', ''zoom'', ''teams''] content
              then reply_meeting sender_name
              else if any_word_in [''business'', ''collaboration'', ''proposal''] content
              then reply_business sender_name
              else if any_word_in [''urgent'', ''asap'', ''emergency'', ''immediate'', ''important''] content
              then reply_urgent sender_name
              else if any_word_in [''question'', ''help'', ''support'', ''how'', ''what'', ''why'', ''?''] content
              then reply_question sender_name
              else reply_default sender_name)))"

section \<open>The agent's state and its environment\<close>

datatype level = INFO | WARNING | ERROR

datatype conn = Session bool
  \<comment> \<open>a session object of the mail library; the flag says whether its login went through\<close>

datatype 'a outcome = Raises string | Returns 'a
  \<comment> \<open>what a call into a library does: raise an exception with this text, or return\<close>

record mime_text =
  mt_content_type :: string
  mt_charset :: string
  mt_text :: string

text \<open>
  A \<open>MIMEText(text, 'plain')\<close> object: its content type, the charset the constructor
  chose and the text it carries.
\<close>

record mime_msg =
  mm_headers :: "(string \<times> header_value) list"
  mm_parts :: "mime_text list"

text \<open>
  A \<open>MIMEMultipart()\<close> object: its headers in order (the constructor sets
  \<open>Content-Type: multipart/mixed\<close> and \<open>MIME-Version: 1.0\<close>, the caller adds the others)
  and the parts attached to it.
\<close>

datatype send_call = SendReply email_data string | SendCustom string string string

record config =
  cfg_email :: string
  auto_reply :: bool
  reply_delay :: int
  max_emails_per_check :: int
  ai_enabled :: bool
  gemini_available :: bool
  api_key :: string

text \<open>
  The values of \<open>config.yaml\<close> that the modelled functions read, with the types they
  have in the sample configuration: \<open>email.email\<close>, \<open>agent.auto_reply\<close>,
  \<open>agent.reply_delay\<close>, \<open>agent.max_emails_per_check\<close>, \<open>ai.enabled\<close> and
  \<open>ai.api_key\<close>; \<open>gemini_available\<close> is the module-level flag \<open>GEMINI_AVAILABLE\<close>.
\<close>

record agent =
  imap_conn :: "conn option"
  smtp_conn :: "conn option"
  processed_emails :: "string set"
  gemini_model :: bool
  logs :: "(level \<times> string) list"
  prompts :: "string list"
  wire :: "(string \<times> header_value \<times> mime_msg) list"
  send_calls :: "send_call list"

text \<open>
  \<open>logs\<close> is the sink of \<open>self.logger\<close>.  The last three fields are not attributes of the
  Python object: they record, in order, the prompts passed to \<open>generate_content\<close>, the
  \<open>sendmail\<close> calls made on the SMTP session (sender address, recipient, and the message
  whose \<open>as_string()\<close> text was handed over), and the calls of \<open>send_reply\<close> and
  \<open>send_custom_email\<close>.
\<close>

record part =
  content_type :: string
  content_disposition :: "string option"
  decoded :: "string option"

text \<open>
  A part as \<open>walk()\<close> yields it: \<open>get_content_type()\<close>, the \<open>Content-Disposition\<close> header
  (\<open>None\<close> when absent) and the result of \<open>get_payload(decode=True).decode()\<close>
  (\<open>None\<close> when that raises).
\<close>

datatype email_message =
    Multipart "part list"
  | Singlepart "string option" "string outcome"
  \<comment> \<open>\<open>Singlepart d raw\<close>: \<open>d\<close> as above for the message itself; \<open>raw\<close> is what
      \<open>str(email_message.get_payload())\<close> does, which the library lets raise\<close>

datatype fetch_outcome =
    FetchRaises string
  | FetchNotOK
  | Fetched "string outcome" header_value header_value email_message

text \<open>
  What lines 188 to 200 and 210 do for one identifier.  \<open>FetchRaises\<close>: the \<open>fetch\<close>
  call or \<open>message_from_bytes\<close> raises.  \<open>FetchNotOK\<close>: the status is not \<open>OK\<close>.
  \<open>Fetched subject sender date message\<close>: the message was fetched and parsed;
  \<open>subject\<close> is what decoding the subject (lines 195 to 197) does, which raises for a
  message without a \<open>Subject\<close> header; \<open>sender\<close> and \<open>date\<close> are the \<open>From\<close> and
  \<open>Date\<close> header values.
\<close>

datatype search_outcome =
    SearchRaises string
  | SearchNotOK
  | SearchOK "(string \<times> fetch_outcome) list"
  \<comment> \<open>the identifiers the server reports as unseen, each with what fetching it does\<close>

datatype connect_result =
    ImapConnectFails string
  | ImapLoginFails string
  | SmtpConnectFails string
  | SmtpLoginFails string
  | ConnectOk

datatype setup_result = ConfigureFails string | TestCallFails string | SetupOk

record env =
  imap_search :: search_outcome
  connect_response :: connect_result
  setup_response :: setup_result
  generate_content :: "nat \<Rightarrow> string \<Rightarrow> string outcome"
  as_string :: "mime_msg \<Rightarrow> unit outcome"
  sendmail :: "nat \<Rightarrow> string \<times> header_value \<times> mime_msg \<Rightarrow> unit outcome"

text \<open>
  The outside world during one operation (a poll cycle or a chat command).  The number
  given to \<open>generate_content\<close> and \<open>sendmail\<close> is the count of earlier calls in the run,
  so that the same arguments may meet different answers.  \<open>generate_content\<close> gives
  the \<open>text\<close> of the response, or the exception that the call or reading the text
  raises.  \<open>as_string\<close> says whether
  serializing a message raises (the library refuses, for one, a header value that holds
  a line break followed by what looks like a header); when it returns, the text stands
  for the message, and \<open>sendmail\<close> is given the message.
\<close>

definition logger_info :: "string \<Rightarrow> agent \<Rightarrow> agent" where
  "logger_info msg st = st\<lparr>logs := logs st @ [(INFO, msg)]\<rparr>"

definition logger_warning :: "string \<Rightarrow> agent \<Rightarrow> agent" where
  "logger_warning msg st = st\<lparr>logs := logs st @ [(WARNING, msg)]\<rparr>"

definition logger_error :: "string \<Rightarrow> agent \<Rightarrow> agent" where
  "logger_error msg st = st\<lparr>logs := logs st @ [(ERROR, msg)]\<rparr>"

definition none_has_no :: "string \<Rightarrow> string" where
  \<comment> \<open>the text of the AttributeError raised by \<open>None.attr\<close>\<close>
  "none_has_no attr =
     [CHR 0x27] @ ''NoneType'' @ [CHR 0x27] @ '' object has no attribute ''
     @ [CHR 0x27] @ attr @ [CHR 0x27]"

definition init_agent :: agent where
  \<comment> \<open>\<open>__init__\<close> before \<open>setup_gemini\<close>\<close>
  "init_agent =
     \<lparr>imap_conn = None, smtp_conn = None, processed_emails = {}, gemini_model = False,
      logs = [], prompts = [], wire = [], send_calls = []\<rparr>"

section \<open>Generation service (\<open>setup_gemini\<close>, \<open>generate_gemini_reply\<close>, \<open>generate_ai_reply\<close>)\<close>

definition setup_gemini :: "config \<Rightarrow> env \<Rightarrow> agent \<Rightarrow> bool \<times> agent" where
  "setup_gemini cfg world st =
     (if \<not> gemini_available cfg
      then (False, logger_info ''Google Generative AI library not available - using mock responses'' st)
      else if api_key cfg = [] \<or> api_key cfg = ''your-gemini-api-key-here''
      then (False, logger_info ''No Gemini API key configured - using mock responses'' st)
      else (case setup_response world of
              ConfigureFails txt \<Rightarrow>
                (False, logger_error ''Failed to setup Gemini - check API key configuration'' st)
            | TestCallFails txt \<Rightarrow>
                (False, logger_error ''Failed to setup Gemini - check API key configuration''
                          (st\<lparr>gemini_model := True\<rparr>))
            | SetupOk \<Rightarrow>
                (True, logger_info ''Google Gemini (gemini-2.5-flash) initialized successfully''
                         (st\<lparr>gemini_model := True\<rparr>))))"

definition gemini_prompt :: "string \<Rightarrow> string \<Rightarrow> string \<Rightarrow> string" where
  "gemini_prompt sender_name subject body =
     ''You are a professional email assistant for Yash. Write a polite, helpful auto-reply to this email.''
     @ [line_break] @ ''            '' @ [line_break]
     @ ''Sender: '' @ sender_name @ [line_break]
     @ ''Subject: '' @ subject @ [line_break]
     @ ''Email content: '' @ body @ [line_break]
     @ ''            '' @ [line_break]
     @ ''Write a professional reply that:'' @ [line_break]
     @ ''1. Acknowledges their message appropriately'' @ [line_break]
     @ ''2. Is helpful and courteous'' @ [line_break]
     @ ''3. Indicates you'll respond properly soon (if needed)'' @ [line_break]
     @ ''4. Keep it brief (2-3 sentences)'' @ [line_break]
     @ ''5. Sign as '' @ [CHR 0x22] @ ''Best regards, Yash'' @ [CHR 0x22] @ [line_break]
     @ ''6. Use proper email formatting with line breaks'' @ [line_break]
     @ ''            '' @ [line_break]
     @ ''Reply:''"

definition generate_gemini_reply :: "env \<Rightarrow> email_data \<Rightarrow> agent \<Rightarrow> (py_error + string) \<times> agent" where
  "generate_gemini_reply world email_data st =
     (case extract_sender_name (ed_sender email_data) of
        Inl e \<Rightarrow>
          (generate_improved_mock_reply email_data,
           logger_error (''Gemini reply generation failed: '' @ error_text e) st)
      | Inr sender_name \<Rightarrow>
          (let prompt = gemini_prompt sender_name (ed_subject email_data)
                          (take 500 (ed_body email_data))
           in if \<not> gemini_model st
              then (generate_improved_mock_reply email_data,
                    logger_error (''Gemini reply generation failed: ''
                                  @ none_has_no ''generate_content'') st)
              else (case generate_content world (length (prompts st)) prompt of
                      Raises txt \<Rightarrow>
                        (generate_improved_mock_reply email_data,
                         logger_error (''Gemini reply generation failed: '' @ txt)
                           (st\<lparr>prompts := prompts st @ [prompt]\<rparr>))
                    | Returns text \<Rightarrow>
                        (Inr (strip text),
                         logger_info ''Generated Gemini AI reply''
                           (st\<lparr>prompts := prompts st @ [prompt]\<rparr>)))))"


section \<open>Mail client (\<open>connect_email\<close>, \<open>get_email_body\<close>, \<open>read_new_emails\<close>, sending)\<close>

definition connect_email :: "env \<Rightarrow> agent \<Rightarrow> bool \<times> agent" where
  "connect_email world st =
     (let st1 = logger_info ''Connecting to Gmail IMAP...'' st
      in case connect_response world of
           ImapConnectFails txt \<Rightarrow>
             (False, logger_error (''Email connection failed: '' @ txt) st1)
         | ImapLoginFails txt \<Rightarrow>
             (False, logger_error (''Email connection failed: '' @ txt)
                       (st1\<lparr>imap_conn := Some (Session False)\<rparr>))
         | SmtpConnectFails txt \<Rightarrow>
             (False, logger_error (''Email connection failed: '' @ txt)
                       (logger_info ''Connecting to Gmail SMTP...''
                          (st1\<lparr>imap_conn := Some (Session True)\<rparr>)))
         | SmtpLoginFails txt \<Rightarrow>
             (False, logger_error (''Email connection failed: '' @ txt)
                       ((logger_info ''Connecting to Gmail SMTP...''
                          (st1\<lparr>imap_conn := Some (Session True)\<rparr>))
                        \<lparr>smtp_conn := Some (Session False)\<rparr>))
         | ConnectOk \<Rightarrow>
             (True, logger_info ''Email connections established''
                      ((logger_info ''Connecting to Gmail SMTP...''
                         (st1\<lparr>imap_conn := Some (Session True)\<rparr>))
                       \<lparr>smtp_conn := Some (Session True)\<rparr>)))"

definition disposition_text :: "part \<Rightarrow> string" where
  \<comment> \<open>\<open>str(part.get("Content-Disposition"))\<close>\<close>
  "disposition_text p = (case content_disposition p of None \<Rightarrow> ''None'' | Some d \<Rightarrow> d)"

fun walk_parts :: "part list \<Rightarrow> string" where
  \<comment> \<open>the loop of lines 233 to 242, from \<open>body = ""\<close>\<close>
  "walk_parts [] = []"
| "walk_parts (p # ps) =
     (if content_type p = ''text/plain'' \<and> \<not> contains ''attachment'' (disposition_text p)
      then (case decoded p of Some text \<Rightarrow> text | None \<Rightarrow> walk_parts ps)
      else walk_parts ps)"

fun get_email_body :: "email_message \<Rightarrow> py_error + string" where
  \<comment> \<open>line 247, \<open>str(email_message.get_payload())\<close>, stands inside an \<open>except\<close> branch:
      what it raises leaves the function\<close>
  "get_email_body (Multipart ps) = Inr (strip (walk_parts ps))"
| "get_email_body (Singlepart d raw) =
     (case d of
        Some text \<Rightarrow> Inr (strip text)
      | None \<Rightarrow>
          (case raw of
             Raises txt \<Rightarrow> Inl (LibraryError txt)
           | Returns payload \<Rightarrow> Inr (strip payload)))"

definition skip_message :: "string \<Rightarrow> string \<Rightarrow> agent \<Rightarrow> agent" where
  \<comment> \<open>the handler of lines 218 to 220; \<open>email_id\<close> is a \<open>bytes\<close> object there\<close>
  "skip_message email_id txt st =
     logger_warning (''Error processing email b'' @ [CHR 0x27] @ email_id @ [CHR 0x27]
                     @ '': '' @ txt) st"

definition last_slice :: "int \<Rightarrow> 'a list \<Rightarrow> 'a list" where
  \<comment> \<open>\<open>xs[-k:]\<close>\<close>
  "last_slice k xs =
     (if 0 < k then drop (length xs - nat k) xs else drop (nat (- k)) xs)"

fun fetch_loop :: "(string \<times> fetch_outcome) list \<Rightarrow> email_data list \<Rightarrow> agent \<Rightarrow> email_data list \<times> agent" where
  \<comment> \<open>the loop of lines 183 to 220\<close>
  "fetch_loop [] new_emails st = (new_emails, st)"
| "fetch_loop ((email_id, out) # rest) new_emails st =
     (if email_id \<in> processed_emails st then fetch_loop rest new_emails st
      else (case out of
              FetchNotOK \<Rightarrow> fetch_loop rest new_emails st
            | FetchRaises txt \<Rightarrow> fetch_loop rest new_emails (skip_message email_id txt st)
            | Fetched subject_result sender date message \<Rightarrow>
                (case subject_result of
                   Raises txt \<Rightarrow> fetch_loop rest new_emails (skip_message email_id txt st)
                 | Returns subject \<Rightarrow>
                     (case get_email_body message of
                        Inl e \<Rightarrow>
                          fetch_loop rest new_emails (skip_message email_id (error_text e) st)
                      | Inr body \<Rightarrow>
                          fetch_loop rest
                            (new_emails
                             @ [\<lparr>ed_id = email_id, ed_subject = subject, ed_sender = sender,
                                 ed_body = body, ed_date = date\<rparr>])
                            (logger_info (''New email from '' @ py_str sender @ '': ''
                                          @ take 50 subject @ ''...'')
                               (st\<lparr>processed_emails :=
                                      insert email_id (processed_emails st)\<rparr>))))))"

definition read_new_emails :: "config \<Rightarrow> env \<Rightarrow> agent \<Rightarrow> email_data list \<times> agent" where
  "read_new_emails cfg world st =
     (if imap_conn st = None then ([], st)
      else (case imap_search world of
              SearchRaises txt \<Rightarrow> ([], logger_error (''Error reading emails: '' @ txt) st)
            | SearchNotOK \<Rightarrow> ([], st)
            | SearchOK email_ids \<Rightarrow>
                fetch_loop (last_slice (max_emails_per_check cfg) email_ids) [] st))"

definition plain_text_part :: "string \<Rightarrow> mime_text" where
  \<comment> \<open>\<open>MIMEText(text, 'plain')\<close>: the charset is \<open>us-ascii\<close> when the text encodes in it\<close>
  "plain_text_part text =
     \<lparr>mt_content_type = ''text/plain'',
      mt_charset = (if list_all (\<lambda>c. (of_char c :: nat) < 128) text then ''us-ascii''
                    else ''utf-8''),
      mt_text = text\<rparr>"

definition build_message :: "string \<Rightarrow> header_value \<Rightarrow> string \<Rightarrow> string \<Rightarrow> mime_msg" where
  \<comment> \<open>lines 256 to 260 and 401 to 407\<close>
  "build_message from_addr to_addr subject text =
     \<lparr>mm_headers = [(''Content-Type'', Str ''multipart/mixed''), (''MIME-Version'', Str ''1.0''),
                    (''From'', Str from_addr), (''To'', to_addr), (''Subject'', Str subject)],
      mm_parts = [plain_text_part text]\<rparr>"

definition send_custom_email :: "config \<Rightarrow> env \<Rightarrow> string \<Rightarrow> string \<Rightarrow> string \<Rightarrow> agent \<Rightarrow> bool \<times> agent" where
  "send_custom_email cfg world recipient subject body st =
     (let st0 = st\<lparr>send_calls := send_calls st @ [SendCustom recipient subject body]\<rparr>;
          st1 = (if smtp_conn st0 = None then snd (connect_email world st0) else st0)
      in case smtp_conn st1 of
           None \<Rightarrow>
             (False, logger_error (''Failed to send custom email: '' @ none_has_no ''sendmail'') st1)
         | Some session \<Rightarrow>
             (let msg = build_message (cfg_email cfg) (Str recipient) subject body
              in case as_string world msg of
                   Raises txt \<Rightarrow>
                     (False, logger_error (''Failed to send custom email: '' @ txt) st1)
                 | Returns _ \<Rightarrow>
                     (let call = (cfg_email cfg, Str recipient, msg);
                          st2 = st1\<lparr>wire := wire st1 @ [call]\<rparr>
                      in case sendmail world (length (wire st1)) call of
                           Raises txt \<Rightarrow>
                             (False, logger_error (''Failed to send custom email: '' @ txt) st2)
                         | Returns _ \<Rightarrow>
                             (True, logger_info (''Sent custom email to '' @ recipient) st2))))"

definition send_reply :: "config \<Rightarrow> env \<Rightarrow> email_data \<Rightarrow> string \<Rightarrow> agent \<Rightarrow> bool \<times> agent" where
  "send_reply cfg world original_email reply_text st =
     (let st0 = st\<lparr>send_calls := send_calls st @ [SendReply original_email reply_text]\<rparr>
      in case smtp_conn st0 of
           None \<Rightarrow> (False, st0)
         | Some session \<Rightarrow>
             (let msg = build_message (cfg_email cfg) (ed_sender original_email)
                          (''Re: '' @ ed_subject original_email) reply_text
              in case as_string world msg of
                   Raises txt \<Rightarrow> (False, logger_error (''Failed to send reply: '' @ txt) st0)
                 | Returns _ \<Rightarrow>
                     (let call = (cfg_email cfg, ed_sender original_email, msg);
                          st1 = st0\<lparr>wire := wire st0 @ [call]\<rparr>
                      in case sendmail world (length (wire st0)) call of
                           Raises txt \<Rightarrow>
                             (False, logger_error (''Failed to send reply: '' @ txt) st1)
                         | Returns _ \<Rightarrow>
                             (True, logger_info (''Reply sent to ''
                                                 @ py_str (ed_sender original_email)) st1))))"

abbreviation reply_message :: "config \<Rightarrow> email_data \<Rightarrow> string \<Rightarrow> mime_msg" where
  \<comment> \<open>the message that \<open>send_reply\<close> builds\<close>
  "reply_message cfg original_email reply_text \<equiv>
     build_message (cfg_email cfg) (ed_sender original_email)
       (''Re: '' @ ed_subject original_email) reply_text"

abbreviation custom_message :: "config \<Rightarrow> string \<Rightarrow> string \<Rightarrow> string \<Rightarrow> mime_msg" where
  \<comment> \<open>the message that \<open>send_custom_email\<close> builds\<close>
  "custom_message cfg recipient subject body \<equiv>
     build_message (cfg_email cfg) (Str recipient) subject body"

section \<open>Poll cycle (\<open>process_emails\<close>)\<close>







section \<open>Chat front end (\<open>telegram_email_bot.py\<close>)\<close>

datatype bot_reply =
    MailUsage
  | Preview string string string
  | EmailSent
  | EmailFailed
  | NoPendingApprove
  | PendingCancelled
  | NoPendingCancel
  | NoNewEmails
  | EmailListing nat string string string

text \<open>
  The texts passed to \<open>reply_text\<close>, by the line that builds them: the usage line of
  \<open>/mail\<close> (20), the preview (26 to 28), "Email sent!" and "Failed to send email." (54),
  "No pending email to approve." (56), "Pending email cancelled." (60),
  "No pending email to cancel." (62), "No new emails." (67) and the listing of one
  message with its number, sender, subject and snippet (71 to 73).
\<close>

record bot =
  pending_emails :: "int \<rightharpoonup> string \<times> string \<times> string"
  read_emails :: "int \<rightharpoonup> email_data list"
  agent :: agent

text \<open>
  \<open>pending_emails\<close> is the module-level dictionary, keyed by \<open>update.effective_user.id\<close>;
  \<open>read_emails\<close> is \<open>context.user_data['read_emails']\<close> of each user; \<open>agent\<close> is the
  module-level \<open>EmailToEmailAgent\<close>.
\<close>

definition mail_command :: "int \<Rightarrow> string list \<Rightarrow> bot \<Rightarrow> bot_reply list \<times> bot" where
  "mail_command user args b =
     (if length args < 2 then ([MailUsage], b)
      else (let recipient = args ! 0;
                subject = ''Message from Telegram'';
                body = join '' '' (drop 1 args)
            in ([Preview recipient subject body],
                b\<lparr>pending_emails := (pending_emails b)(user \<mapsto> (recipient, subject, body))\<rparr>)))"

definition approve_command :: "config \<Rightarrow> env \<Rightarrow> int \<Rightarrow> bot \<Rightarrow> bot_reply list \<times> bot" where
  "approve_command cfg world user b =
     (let data = pending_emails b user;
          b1 = b\<lparr>pending_emails := (pending_emails b)(user := None)\<rparr>
      in case data of
           Some (recipient, subject, body) \<Rightarrow>
             (case send_custom_email cfg world recipient subject body (agent b1) of
                (success, st) \<Rightarrow>
                  ([if success then EmailSent else EmailFailed], b1\<lparr>agent := st\<rparr>))
         | None \<Rightarrow> ([NoPendingApprove], b1))"

definition cancel_command :: "int \<Rightarrow> bot \<Rightarrow> bot_reply list \<times> bot" where
  "cancel_command user b =
     (let data = pending_emails b user;
          b1 = b\<lparr>pending_emails := (pending_emails b)(user := None)\<rparr>
      in case data of
           Some draft \<Rightarrow> ([PendingCancelled], b1)
         | None \<Rightarrow> ([NoPendingCancel], b1))"

definition snippet :: "string \<Rightarrow> string" where
  \<comment> \<open>\<open>email['body'][:100].replace('\n', ' ')\<close>\<close>
  "snippet body = map (\<lambda>c. if c = line_break then CHR '' '' else c) (take 100 body)"

fun listings :: "nat \<Rightarrow> email_data list \<Rightarrow> bot_reply list" where
  \<comment> \<open>the loop of lines 69 to 73, from index \<open>idx\<close>\<close>
  "listings idx [] = []"
| "listings idx (email # emails) =
     EmailListing (idx + 1) (py_str (ed_sender email)) (ed_subject email)
       (snippet (ed_body email))
     # listings (idx + 1) emails"

definition read_command :: "config \<Rightarrow> env \<Rightarrow> int \<Rightarrow> bot \<Rightarrow> bot_reply list \<times> bot" where
  "read_command cfg world user b =
     (case read_new_emails cfg world (agent b) of
        (emails, st) \<Rightarrow>
          (let b1 = b\<lparr>agent := st\<rparr>
           in if emails = [] then ([NoNewEmails], b1)
              else (listings 0 emails,
                    b1\<lparr>read_emails := (read_emails b1)(user \<mapsto> emails)\<rparr>)))"

section \<open>The category rules of the specification\<close>

text \<open>
  The definitions of this section follow the words of the specification, not the code:
  an ordered list of rules, each a set of trigger keywords, scanned in priority order
  over the lower-cased subject and body; a keyword matches when it occurs in that text
  as a contiguous piece (\<^const>\<open>sublist\<close>).
\<close>

datatype category =
    SocialInvitation
  | Availability
  | WorkOffice
  | MeetingRequest
  | BusinessCollaboration
  | Urgency
  | Question
  | DefaultAcknowledgment

definition category_rules :: "(category \<times> string list) list" where
  \<comment> \<open>the rules in the priority order of the specification, each with the trigger
      keywords of lines 334 to 358\<close>
  "category_rules =
     [(SocialInvitation, [''dinner'', ''lunch'', ''coffee'', ''drink'', ''hang out'', ''meet up'']),
      (Availability, [''free'', ''available'', ''time'', ''when'', ''schedule'']),
      (WorkOffice, [''leave'', ''office'', ''work'', ''meeting'', ''project'']),
      (MeetingRequest, [''call'', ''appointment'', ''zoom'', ''teams'']),
      (BusinessCollaboration, [''business'', ''collaboration'', ''proposal'']),
      (Urgency, [''urgent'', ''asap'', ''emergency'', ''immediate'', ''important'']),
      (Question, [''question'', ''help'', ''support'', ''how'', ''what'', ''why'', ''?''])]"

definition spec_lower :: "char \<Rightarrow> char" where
  \<comment> \<open>lower-casing of one code point below 256: A..Z and U+00C0..U+00DE (without the
      multiplication sign U+00D7) move up by 32, every other code point stays\<close>
  "spec_lower c =
     (let n = (of_char c :: nat)
      in if (65 \<le> n \<and> n \<le> 90) \<or> (192 \<le> n \<and> n \<le> 222 \<and> n \<noteq> 215)
         then char_of (n + 32) else c)"

definition spec_scan_text :: "string \<Rightarrow> string \<Rightarrow> string" where
  \<comment> \<open>the scan string: lower-cased subject, one space, lower-cased body\<close>
  "spec_scan_text subject body = map spec_lower subject @ '' '' @ map spec_lower body"

definition keyword_occurs :: "string list \<Rightarrow> string \<Rightarrow> bool" where
  \<comment> \<open>a rule matches when one of its keywords occurs in the text\<close>
  "keyword_occurs words text = list_ex (\<lambda>word. sublist word text) words"

fun spec_first_match :: "(category \<times> string list) list \<Rightarrow> string \<Rightarrow> category" where
  \<comment> \<open>scan the rules in order; the first whose keyword set matches wins, else the default\<close>
  "spec_first_match [] text = DefaultAcknowledgment"
| "spec_first_match ((cat, words) # rules) text =
     (if keyword_occurs words text then cat else spec_first_match rules text)"

definition spec_category :: "string \<Rightarrow> string \<Rightarrow> category" where
  "spec_category subject body = spec_first_match category_rules (spec_scan_text subject body)"

fun template_of :: "category \<Rightarrow> string \<Rightarrow> string" where
  "template_of SocialInvitation = reply_social"
| "template_of Availability = reply_availability"
| "template_of WorkOffice = reply_work"
| "template_of MeetingRequest = reply_meeting"
| "template_of BusinessCollaboration = reply_business"
| "template_of Urgency = reply_urgent"
| "template_of Question = reply_question"
| "template_of DefaultAcknowledgment = reply_default"

section \<open>Concrete inputs\<close>

definition urgent_dinner_mail :: email_data where
  "urgent_dinner_mail =
     \<lparr>ed_id = ''7'', ed_subject = ''Tonight'', ed_sender = Str ''Jane Doe <jane@x.com>'',
      ed_body = ''urgent: dinner at 8'', ed_date = PyNone\<rparr>"

definition coffee_mail :: email_data where
  "coffee_mail =
     \<lparr>ed_id = ''1'', ed_subject = ''Quick coffee?'', ed_sender = Str ''Jane Doe <jane@x.com>'',
      ed_body = ''Are you free Thursday?'', ed_date = PyNone\<rparr>"

definition shouted_mail :: email_data where
  \<comment> \<open>the only keyword, "urgent", is written in capitals, in the subject\<close>
  "shouted_mail =
     \<lparr>ed_id = ''8'', ed_subject = ''URGENT'', ed_sender = Str ''ops@x.com'',
      ed_body = ''Disk full.'', ed_date = PyNone\<rparr>"

definition plain_mail :: email_data where
  \<comment> \<open>no keyword of any rule occurs\<close>
  "plain_mail =
     \<lparr>ed_id = ''9'', ed_subject = ''Greetings'', ed_sender = Str ''Bob <bob@x.com>'',
      ed_body = ''See you.'', ed_date = PyNone\<rparr>"

definition no_from_mail :: email_data where
  \<comment> \<open>the coffee invitation, from a message that has no \<open>From\<close> header\<close>
  "no_from_mail =
     \<lparr>ed_id = ''3'', ed_subject = ''Quick coffee?'', ed_sender = PyNone,
      ed_body = ''Are you free Thursday?'', ed_date = PyNone\<rparr>"

definition demo_config :: config where
  "demo_config =
     \<lparr>cfg_email = ''yash@example.com'', auto_reply = True, reply_delay = 5,
      max_emails_per_check = 5,
      ai_enabled = True, gemini_available = True, api_key = ''secret-key''\<rparr>"

definition connected_agent :: agent where
  "connected_agent =
     init_agent\<lparr>imap_conn := Some (Session True), smtp_conn := Some (Session True),
                gemini_model := True\<rparr>"

definition failing_service_world :: env where
  "failing_service_world =
     \<lparr>imap_search = SearchOK [],
      connect_response = ConnectOk,
      setup_response = SetupOk,
      generate_content = (\<lambda>n prompt. Raises ''403 API key secret-key rejected''),
      as_string = (\<lambda>msg. Returns ()),
      sendmail = (\<lambda>n call. Returns ())\<rparr>"

definition friendly_world :: env where
  "friendly_world =
     \<lparr>imap_search = SearchOK [],
      connect_response = ConnectOk,
      setup_response = SetupOk,
      generate_content = (\<lambda>n prompt. Returns ''Thanks, I will reply soon.''),
      as_string = (\<lambda>msg. Returns ()),
      sendmail = (\<lambda>n call. Returns ())\<rparr>"

definition smtp_down_world :: env where
  "smtp_down_world =
     \<lparr>imap_search = SearchOK [],
      connect_response = SmtpConnectFails ''Connection refused'',
      setup_response = SetupOk,
      generate_content = (\<lambda>n prompt. Returns ''Thanks, I will reply soon.''),
      as_string = (\<lambda>msg. Returns ()),
      sendmail = (\<lambda>n call. Raises ''Connection unexpectedly closed'')\<rparr>"


fun embeds_header :: "string \<Rightarrow> bool" where
  \<comment> \<open>a line break followed by one or more characters other than space and tab and then a
      colon: the pattern for which the header encoder of the library raises\<close>
  "embeds_header [] = False"
| "embeds_header (c # s) =
     ((c = line_break
       \<and> CHR '':'' \<in> set (tl (takeWhile (\<lambda>x. x \<noteq> CHR '' '' \<and> x \<noteq> CHR 0x09) s)))
      \<or> embeds_header s)"

definition strict_headers_world :: env where
  \<comment> \<open>serializing raises for a message with such a header value\<close>
  "strict_headers_world =
     friendly_world\<lparr>as_string :=
       (\<lambda>msg. if list_ex (\<lambda>h. embeds_header (py_str (snd h))) (mm_headers msg)
               then Raises ''header value appears to contain an embedded header''
               else Returns ())\<rparr>"

definition injected_subject :: string where
  \<comment> \<open>a subject that carries a second header line\<close>
  "injected_subject = ''Hi'' @ [line_break] @ ''Bcc: eve@x.com''"

definition injected_mail :: email_data where
  \<comment> \<open>a message whose decoded subject carries a second header line\<close>
  "injected_mail =
     \<lparr>ed_id = ''5'', ed_subject = injected_subject, ed_sender = Str ''Jane Doe <jane@x.com>'',
      ed_body = ''Are you free Thursday?'', ed_date = PyNone\<rparr>"

definition demo_bot :: bot where
  "demo_bot = \<lparr>pending_emails = Map.empty, read_emails = Map.empty, agent = connected_agent\<rparr>"


definition drafted_bot :: bot where
  \<comment> \<open>the bot after user 42 composed a message to Bob\<close>
  "drafted_bot =
     demo_bot\<lparr>pending_emails :=
       (pending_emails demo_bot)(42 \<mapsto> (''bob@example.com'', ''Message from Telegram'', ''Hi Bob''))\<rparr>"

definition coffee_inbox :: search_outcome where
  \<comment> \<open>the server reports message 1 as unseen; fetching it gives the coffee invitation\<close>
  "coffee_inbox =
     SearchOK [(''1'', Fetched (Returns ''Quick coffee?'') (Str ''Jane Doe <jane@x.com>'') PyNone
                        (Singlepart (Some ''Are you free Thursday?'')
                           (Returns ''Are you free Thursday?'')))]"

definition inbox_world :: env where
  "inbox_world = friendly_world\<lparr>imap_search := coffee_inbox\<rparr>"


definition odd_inbox :: search_outcome where
  \<comment> \<open>message 2 has no \<open>Subject\<close> header: the server delivers it, decoding the subject
      raises; message 3 has no \<open>From\<close> header\<close>
  "odd_inbox =
     SearchOK [(''2'', Fetched (Raises ''expected string or bytes-like object'')
                        (Str ''Jane Doe <jane@x.com>'') PyNone
                        (Singlepart (Some ''Are you free Thursday?'')
                           (Returns ''Are you free Thursday?''))),
               (''3'', Fetched (Returns ''Quick coffee?'') PyNone PyNone
                        (Singlepart (Some ''Are you free Thursday?'')
                           (Returns ''Are you free Thursday?'')))]"

definition odd_world :: env where
  "odd_world = friendly_world\<lparr>imap_search := odd_inbox\<rparr>"


section \<open>Properties of the string operations\<close>

lemma startswith_iff: "startswith w s \<longleftrightarrow> (\<exists>q. s = w @ q)"
  by (induction w s rule: startswith.induct) auto

lemma contains_iff: "contains w s \<longleftrightarrow> (\<exists>p q. s = p @ w @ q)"
proof (induction s)
  case Nil
  then show ?case by simp
next
  case (Cons c s)
  show ?case
  proof
    assume "contains w (c # s)"
    then consider "startswith w (c # s)" | "contains w s" by auto
    then show "\<exists>p q. c # s = p @ w @ q"
    proof cases
      case 1
      then obtain q where "c # s = w @ q" by (auto simp: startswith_iff)
      then have "c # s = [] @ w @ q" by simp
      then show ?thesis by blast
    next
      case 2
      then obtain p q where "s = p @ w @ q" using Cons.IH by blast
      then have "c # s = (c # p) @ w @ q" by simp
      then show ?thesis by blast
    qed
  next
    assume "\<exists>p q. c # s = p @ w @ q"
    then obtain p q where pq: "c # s = p @ w @ q" by blast
    show "contains w (c # s)"
    proof (cases p)
      case Nil
      with pq have "startswith w (c # s)" by (auto simp: startswith_iff)
      then show ?thesis by simp
    next
      case (Cons a p')
      with pq have "s = p' @ w @ q" by simp
      then have "contains w s" using Cons.IH by blast
      then show ?thesis by simp
    qed
  qed
qed

lemma contains_sublist: "contains w s \<longleftrightarrow> sublist w s"
  by (simp add: contains_iff sublist_def)

lemma lower_char_spec: "lower_char c = spec_lower c"
proof (cases c)
  case (Char b0 b1 b2 b3 b4 b5 b6 b7)
  show ?thesis
    unfolding Char
    by (cases b0; cases b1; cases b2; cases b3; cases b4; cases b5; cases b6; cases b7)
       (simp_all add: lower_char_def spec_lower_def is_upper_def Let_def char_of_def
          bit_numeral_simps bit_Suc_0_iff)
qed

lemma lower_spec: "lower s = map spec_lower s"
proof -
  have "lower_char = spec_lower" by (rule ext) (rule lower_char_spec)
  then show ?thesis by (simp add: lower_def)
qed

lemma split_ws_from_Nil_iff:
  "split_ws_from cur s = [] \<longleftrightarrow> cur = [] \<and> (\<forall>c\<in>set s. is_space c)"
  by (induction s arbitrary: cur) simp_all

lemma split_ws_from_words:
  "(\<forall>c\<in>set cur. \<not> is_space c) \<Longrightarrow> w \<in> set (split_ws_from cur s) \<Longrightarrow> (\<forall>c\<in>set w. \<not> is_space c)"
proof (induction s arbitrary: cur)
  case Nil
  then show ?case by (simp split: if_splits)
next
  case (Cons a s)
  show ?case
  proof (cases "is_space a")
    case True
    with Cons.prems(2) have "w = rev cur \<or> w \<in> set (split_ws_from [] s)"
      by (simp split: if_splits)
    then show ?thesis
    proof
      assume "w = rev cur"
      with Cons.prems(1) show ?thesis by simp
    next
      assume "w \<in> set (split_ws_from [] s)"
      then show ?thesis using Cons.IH [of "[]"] by simp
    qed
  next
    case False
    with Cons.prems(2) have "w \<in> set (split_ws_from (a # cur) s)" by simp
    moreover from False Cons.prems(1) have "\<forall>c\<in>set (a # cur). \<not> is_space c" by simp
    ultimately show ?thesis using Cons.IH [of "a # cur"] by blast
  qed
qed

lemma strip_has_word: "strip s \<noteq> [] \<Longrightarrow> \<exists>c\<in>set (strip s). \<not> is_space c"
proof -
  assume ne: "strip s \<noteq> []"
  let ?t = "dropWhile is_space (rev (dropWhile is_space s))"
  from ne have "?t \<noteq> []" by (simp add: strip_def)
  then have "\<not> is_space (hd ?t)" by (rule hd_dropWhile)
  moreover from \<open>?t \<noteq> []\<close> have "hd ?t \<in> set (strip s)" by (simp add: strip_def)
  ultimately show ?thesis by blast
qed

lemma there_no_space: "\<forall>c\<in>set ''there''. \<not> is_space c"
  by (simp add: is_space_def)

lemma extract_sender_name_str:
  "\<exists>name. extract_sender_name (Str s) = Inr name \<and> (\<forall>c\<in>set name. \<not> is_space c)"
proof (cases "CHR ''<'' \<in> set s \<and> strip (takeWhile (\<lambda>c. c \<noteq> CHR ''<'') s) \<noteq> []")
  case False
  then have "extract_sender_name (Str s) = Inr ''there''"
    by (auto simp: extract_sender_name_def Let_def)
  with there_no_space show ?thesis by blast
next
  case True
  let ?np = "strip (takeWhile (\<lambda>c. c \<noteq> CHR ''<'') s)"
  from True have "split_ws ?np \<noteq> []"
    using strip_has_word [of "takeWhile (\<lambda>c. c \<noteq> CHR ''<'') s"]
    by (auto simp: split_ws_def split_ws_from_Nil_iff)
  then obtain w ws where ws: "split_ws ?np = w # ws" by (cases "split_ws ?np") auto
  then have "w \<in> set (split_ws_from [] ?np)" by (simp add: split_ws_def)
  then have "\<forall>c\<in>set w. \<not> is_space c" using split_ws_from_words [of "[]" w ?np] by simp
  moreover from True ws have "extract_sender_name (Str s) = Inr w"
    by (simp add: extract_sender_name_def Let_def first_item_def)
  ultimately show ?thesis by blast
qed

lemma extract_sender_name_is_str:
  "is_str v \<Longrightarrow> \<exists>name. extract_sender_name v = Inr name \<and> (\<forall>c\<in>set name. \<not> is_space c)"
  using extract_sender_name_str by (cases v) simp_all

lemma extract_sender_name_not_str:
  "\<not> is_str v \<Longrightarrow> \<exists>errtext. extract_sender_name v = Inl (TypeError errtext)"
  by (cases v) (simp_all add: extract_sender_name_def)

section \<open>The template reply generator\<close>

lemma any_word_in_occurs: "any_word_in words content = keyword_occurs words content"
  by (simp add: any_word_in_def keyword_occurs_def contains_sublist)

lemma scan_content_spec: "scan_content e = spec_scan_text (ed_subject e) (ed_body e)"
  by (simp add: scan_content_def spec_scan_text_def lower_spec)

lemma generate_eq_template:
  "extract_sender_name (ed_sender e) = Inr name \<Longrightarrow>
   generate_improved_mock_reply e
     = Inr (template_of (spec_category (ed_subject e) (ed_body e)) name)"
  by (simp add: generate_improved_mock_reply_def spec_category_def category_rules_def Let_def
                any_word_in_occurs scan_content_spec)

lemma generate_raises:
  "extract_sender_name (ed_sender e) = Inl err \<Longrightarrow> generate_improved_mock_reply e = Inl err"
  by (simp add: generate_improved_mock_reply_def)

lemma template_of_inj: "template_of c name = template_of c' name \<Longrightarrow> c = c'"
  by (cases c; cases c')
     (simp_all add: reply_social_def reply_availability_def reply_work_def reply_meeting_def
        reply_business_def reply_urgent_def reply_question_def reply_default_def)

lemma keyword_in_body:
  assumes "sublist w body" and "map spec_lower w = w"
  shows "sublist w (spec_scan_text subject body)"
proof -
  from assms(1) obtain p q where "body = p @ w @ q" unfolding sublist_def by blast
  with assms(2) have "spec_scan_text subject body
      = (map spec_lower subject @ '' '' @ map spec_lower p) @ w @ map spec_lower q"
    by (simp add: spec_scan_text_def)
  then show ?thesis unfolding sublist_def by blast
qed

lemma dinner_is_social:
  assumes "sublist ''dinner'' body"
  shows "spec_category subject body = SocialInvitation"
proof -
  have "map spec_lower ''dinner'' = ''dinner''" by (simp add: spec_lower_def)
  with assms have "sublist ''dinner'' (spec_scan_text subject body)"
    by (rule keyword_in_body)
  then show ?thesis
    by (simp add: spec_category_def category_rules_def keyword_occurs_def)
qed

lemma default_iff_no_rule:
  "spec_category subject body = DefaultAcknowledgment
   \<longleftrightarrow> \<not> list_ex (\<lambda>rule. keyword_occurs (snd rule) (spec_scan_text subject body)) category_rules"
  by (simp add: spec_category_def category_rules_def)

lemma jane_name: "extract_sender_name (Str ''Jane Doe <jane@x.com>'') = Inr ''Jane''"
  by (simp add: extract_sender_name_def strip_def split_ws_def first_item_def is_space_def)

lemma urgent_dinner_reply:
  "generate_improved_mock_reply urgent_dinner_mail = Inr (reply_social ''Jane'')"
  using jane_name
  by (simp add: generate_improved_mock_reply_def urgent_dinner_mail_def scan_content_def
                lower_def lower_char_def is_upper_def any_word_in_def)

lemma shouted_reply:
  "generate_improved_mock_reply shouted_mail = Inr (reply_urgent ''there'')"
  by (simp add: generate_improved_mock_reply_def shouted_mail_def scan_content_def
                extract_sender_name_def lower_def lower_char_def is_upper_def any_word_in_def)

lemma plain_reply:
  "generate_improved_mock_reply plain_mail = Inr (reply_default ''Bob'')"
  by (simp add: generate_improved_mock_reply_def plain_mail_def scan_content_def
                extract_sender_name_def strip_def split_ws_def first_item_def is_space_def
                lower_def lower_char_def is_upper_def any_word_in_def)

lemma no_from_raises:
  "generate_improved_mock_reply no_from_mail = Inl (TypeError ''NoneType'')"
  by (simp add: generate_improved_mock_reply_def no_from_mail_def extract_sender_name_def)

lemma coffee_body:
  "get_email_body (Singlepart (Some ''Are you free Thursday?'') raw)
     = Inr ''Are you free Thursday?''"
  by (simp add: strip_def is_space_def)

lemma read_odd_inbox:
  assumes "imap_search world = odd_inbox" and "imap_conn st \<noteq> None"
    and "''2'' \<notin> processed_emails st" and "''3'' \<notin> processed_emails st"
  shows "fst (read_new_emails demo_config world st) = [no_from_mail]"
    and "processed_emails (snd (read_new_emails demo_config world st))
           = insert ''3'' (processed_emails st)"
    and "logs (snd (read_new_emails demo_config world st))
           = logs st
             @ [(WARNING, ''Error processing email b'' @ [CHR 0x27] @ ''2'' @ [CHR 0x27]
                          @ '': expected string or bytes-like object''),
                (INFO, ''New email from None: Quick coffee?...'')]"
  using assms coffee_body
  by (auto simp: read_new_emails_def odd_inbox_def demo_config_def last_slice_def
                 no_from_mail_def logger_info_def logger_warning_def skip_message_def Let_def)

text \<open>
  C1 as stated: for every sender the generator selects a template.  Line 200 stores what
  the message gives for \<open>From\<close>; for a message without that header this is \<open>None\<close>, the
  test \<open>'<' in sender\<close> of line 325 raises a TypeError, and the generator selects no
  template.  Message 3 of the inbox below is such a message, and \<open>read_new_emails\<close>
  returns it.
\<close>

theorem template_generator_raises_without_sender_counterexample:
  "fst (read_new_emails demo_config odd_world connected_agent) = [no_from_mail]
   \<and> ed_sender no_from_mail = PyNone
   \<and> generate_improved_mock_reply no_from_mail = Inl (TypeError ''NoneType'')"
proof -
  have "imap_search odd_world = odd_inbox" by (simp add: odd_world_def)
  moreover have "imap_conn connected_agent \<noteq> None"
    and "''2'' \<notin> processed_emails connected_agent"
    and "''3'' \<notin> processed_emails connected_agent"
    by (simp_all add: connected_agent_def init_agent_def)
  ultimately have "fst (read_new_emails demo_config odd_world connected_agent) = [no_from_mail]"
    by (rule read_odd_inbox(1))
  with no_from_raises show ?thesis by (simp add: no_from_mail_def)
qed

text \<open>
  C1 as amended.  For every subject and body and every sender that is a string, the
  template reply generator returns the template of the category that the specification's
  scan selects: the rules are tried in the order social invitation, availability, work/office,
  meeting request, business/collaboration, urgency, question, over the lower-cased subject,
  a space and the lower-cased body; a rule matches when one of its keywords occurs in that
  text; the first rule that matches gives the template, and the default acknowledgment is
  given exactly when no rule matches.  The templates of two categories differ, so the reply
  tells the category.  A body containing both "urgent" and "dinner" gets the
  social-invitation template.  When the sender is not a string the generator raises a
  TypeError.
\<close>

theorem template_priority_order:
  "(ed_sender e = Str sender \<longrightarrow>
      (\<exists>name. extract_sender_name (Str sender) = Inr name
         \<and> generate_improved_mock_reply e
             = Inr (template_of (spec_category (ed_subject e) (ed_body e)) name)
         \<and> (\<forall>cat. generate_improved_mock_reply e = Inr (template_of cat name)
                \<longrightarrow> cat = spec_category (ed_subject e) (ed_body e))
         \<and> (sublist ''urgent'' (ed_body e) \<and> sublist ''dinner'' (ed_body e)
              \<longrightarrow> generate_improved_mock_reply e = Inr (reply_social name))))
   \<and> (\<not> is_str (ed_sender e)
        \<longrightarrow> (\<exists>errtext. generate_improved_mock_reply e = Inl (TypeError errtext)))
   \<and> (spec_category subject body = DefaultAcknowledgment
        \<longleftrightarrow> \<not> list_ex (\<lambda>rule. keyword_occurs (snd rule) (spec_scan_text subject body))
                 category_rules)
   \<and> map fst category_rules
       = [SocialInvitation, Availability, WorkOffice, MeetingRequest,
          BusinessCollaboration, Urgency, Question]"
proof -
  have 1: "ed_sender e = Str sender \<longrightarrow>
      (\<exists>name. extract_sender_name (Str sender) = Inr name
         \<and> generate_improved_mock_reply e
             = Inr (template_of (spec_category (ed_subject e) (ed_body e)) name)
         \<and> (\<forall>cat. generate_improved_mock_reply e = Inr (template_of cat name)
                \<longrightarrow> cat = spec_category (ed_subject e) (ed_body e))
         \<and> (sublist ''urgent'' (ed_body e) \<and> sublist ''dinner'' (ed_body e)
              \<longrightarrow> generate_improved_mock_reply e = Inr (reply_social name)))"
  proof
    assume s: "ed_sender e = Str sender"
    obtain name where n: "extract_sender_name (Str sender) = Inr name"
      using extract_sender_name_str [of sender] by blast
    from n s have g: "generate_improved_mock_reply e
             = Inr (template_of (spec_category (ed_subject e) (ed_body e)) name)"
      using generate_eq_template [of e name] by simp
    have u: "\<forall>cat. generate_improved_mock_reply e = Inr (template_of cat name)
                \<longrightarrow> cat = spec_category (ed_subject e) (ed_body e)"
      using g template_of_inj [of _ name "spec_category (ed_subject e) (ed_body e)"] by simp
    have d: "sublist ''urgent'' (ed_body e) \<and> sublist ''dinner'' (ed_body e)
              \<longrightarrow> generate_improved_mock_reply e = Inr (reply_social name)"
      using g dinner_is_social [of "ed_body e" "ed_subject e"] by simp
    from n g u d show "\<exists>name. extract_sender_name (Str sender) = Inr name
         \<and> generate_improved_mock_reply e
             = Inr (template_of (spec_category (ed_subject e) (ed_body e)) name)
         \<and> (\<forall>cat. generate_improved_mock_reply e = Inr (template_of cat name)
                \<longrightarrow> cat = spec_category (ed_subject e) (ed_body e))
         \<and> (sublist ''urgent'' (ed_body e) \<and> sublist ''dinner'' (ed_body e)
              \<longrightarrow> generate_improved_mock_reply e = Inr (reply_social name))"
      by blast
  qed
  have 2: "\<not> is_str (ed_sender e)
        \<longrightarrow> (\<exists>errtext. generate_improved_mock_reply e = Inl (TypeError errtext))"
    using extract_sender_name_not_str [of "ed_sender e"] generate_raises [of e] by blast
  have 3: "map fst category_rules
       = [SocialInvitation, Availability, WorkOffice, MeetingRequest,
          BusinessCollaboration, Urgency, Question]"
    by (simp add: category_rules_def)
  from 1 2 3 default_iff_no_rule [of subject body] show ?thesis by blast
qed

theorem template_priority_order_witness:
  "ed_sender urgent_dinner_mail = Str ''Jane Doe <jane@x.com>''
   \<and> sublist ''urgent'' (ed_body urgent_dinner_mail)
   \<and> sublist ''dinner'' (ed_body urgent_dinner_mail)
   \<and> generate_improved_mock_reply urgent_dinner_mail = Inr (reply_social ''Jane'')
   \<and> spec_category (ed_subject urgent_dinner_mail) (ed_body urgent_dinner_mail)
       = SocialInvitation
   \<and> generate_improved_mock_reply shouted_mail = Inr (reply_urgent ''there'')
   \<and> spec_category (ed_subject shouted_mail) (ed_body shouted_mail) = Urgency
   \<and> generate_improved_mock_reply plain_mail = Inr (reply_default ''Bob'')
   \<and> spec_category (ed_subject plain_mail) (ed_body plain_mail) = DefaultAcknowledgment
   \<and> \<not> is_str (ed_sender no_from_mail)
   \<and> generate_improved_mock_reply no_from_mail = Inl (TypeError ''NoneType'')"
proof -
  have s1: "ed_sender urgent_dinner_mail = Str ''Jane Doe <jane@x.com>''"
    by (simp add: urgent_dinner_mail_def)
  have h: "sublist ''urgent'' (ed_body urgent_dinner_mail)
           \<and> sublist ''dinner'' (ed_body urgent_dinner_mail)"
    unfolding contains_sublist [symmetric] by (simp add: urgent_dinner_mail_def)
  from template_priority_order [of urgent_dinner_mail "''Jane Doe <jane@x.com>''"] s1
  obtain name1 where a1: "extract_sender_name (Str ''Jane Doe <jane@x.com>'') = Inr name1"
    and c1: "\<forall>cat. generate_improved_mock_reply urgent_dinner_mail
                     = Inr (template_of cat name1)
                \<longrightarrow> cat = spec_category (ed_subject urgent_dinner_mail)
                             (ed_body urgent_dinner_mail)"
    and d1: "sublist ''urgent'' (ed_body urgent_dinner_mail)
             \<and> sublist ''dinner'' (ed_body urgent_dinner_mail)
              \<longrightarrow> generate_improved_mock_reply urgent_dinner_mail = Inr (reply_social name1)"
    by blast
  from a1 jane_name have m1: "name1 = ''Jane''" by simp
  from d1 h m1 have r1: "generate_improved_mock_reply urgent_dinner_mail
                           = Inr (reply_social ''Jane'')"
    by blast
  have "generate_improved_mock_reply urgent_dinner_mail
          = Inr (template_of SocialInvitation name1)"
    using r1 m1 by simp
  with c1 [rule_format, of SocialInvitation]
  have k1: "spec_category (ed_subject urgent_dinner_mail)
              (ed_body urgent_dinner_mail) = SocialInvitation"
    by simp
  have s2: "ed_sender shouted_mail = Str ''ops@x.com''" by (simp add: shouted_mail_def)
  have n2: "extract_sender_name (Str ''ops@x.com'') = Inr ''there''"
    by (simp add: extract_sender_name_def)
  from template_priority_order [of shouted_mail "''ops@x.com''"] s2
  obtain name2 where a2: "extract_sender_name (Str ''ops@x.com'') = Inr name2"
    and c2: "\<forall>cat. generate_improved_mock_reply shouted_mail = Inr (template_of cat name2)
                \<longrightarrow> cat = spec_category (ed_subject shouted_mail) (ed_body shouted_mail)"
    by blast
  from a2 n2 have m2: "name2 = ''there''" by simp
  have "generate_improved_mock_reply shouted_mail = Inr (template_of Urgency name2)"
    using shouted_reply m2 by simp
  with c2 [rule_format, of Urgency]
  have k2: "spec_category (ed_subject shouted_mail) (ed_body shouted_mail) = Urgency"
    by simp
  have s3: "ed_sender plain_mail = Str ''Bob <bob@x.com>''" by (simp add: plain_mail_def)
  have n3: "extract_sender_name (Str ''Bob <bob@x.com>'') = Inr ''Bob''"
    by (simp add: extract_sender_name_def strip_def split_ws_def first_item_def is_space_def)
  from template_priority_order [of plain_mail "''Bob <bob@x.com>''"] s3
  obtain name3 where a3: "extract_sender_name (Str ''Bob <bob@x.com>'') = Inr name3"
    and c3: "\<forall>cat. generate_improved_mock_reply plain_mail = Inr (template_of cat name3)
                \<longrightarrow> cat = spec_category (ed_subject plain_mail) (ed_body plain_mail)"
    by blast
  from a3 n3 have m3: "name3 = ''Bob''" by simp
  have "generate_improved_mock_reply plain_mail
          = Inr (template_of DefaultAcknowledgment name3)"
    using plain_reply m3 by simp
  with c3 [rule_format, of DefaultAcknowledgment]
  have k3: "spec_category (ed_subject plain_mail) (ed_body plain_mail)
              = DefaultAcknowledgment"
    by simp
  have s4: "\<not> is_str (ed_sender no_from_mail)" by (simp add: no_from_mail_def)
  from s1 h r1 k1 shouted_reply k2 plain_reply k3 s4 no_from_raises
  show ?thesis by (simp only: simp_thms)
qed

lemma line_break_is_space: "is_space line_break"
  by (simp add: is_space_def line_break_def)

lemma templates_no_line_break:
  assumes "line_break \<notin> set name"
  shows "line_break \<notin> set (template_of cat name)"
proof (cases cat)
  case SocialInvitation
  with assms show ?thesis by (simp add: reply_social_def esc_n_def line_break_def)
next
  case Availability
  with assms show ?thesis by (simp add: reply_availability_def esc_n_def line_break_def)
next
  case WorkOffice
  with assms show ?thesis by (simp add: reply_work_def esc_n_def line_break_def)
next
  case MeetingRequest
  with assms show ?thesis by (simp add: reply_meeting_def esc_n_def line_break_def)
next
  case BusinessCollaboration
  with assms show ?thesis by (simp add: reply_business_def esc_n_def line_break_def)
next
  case Urgency
  with assms show ?thesis by (simp add: reply_urgent_def esc_n_def line_break_def)
next
  case Question
  with assms show ?thesis by (simp add: reply_question_def esc_n_def line_break_def)
next
  case DefaultAcknowledgment
  with assms show ?thesis by (simp add: reply_default_def esc_n_def line_break_def)
qed

lemma template_reply_has_no_line_break:
  assumes "generate_improved_mock_reply e = Inr r"
  shows "line_break \<notin> set r"
proof -
  have "is_str (ed_sender e)"
  proof (rule ccontr)
    assume "\<not> is_str (ed_sender e)"
    then obtain errtext where "extract_sender_name (ed_sender e) = Inl (TypeError errtext)"
      using extract_sender_name_not_str by blast
    with assms show False by (simp add: generate_improved_mock_reply_def)
  qed
  then obtain name where n: "extract_sender_name (ed_sender e) = Inr name"
    and sp: "\<forall>c\<in>set name. \<not> is_space c"
    using extract_sender_name_is_str [of "ed_sender e"] by blast
  from sp line_break_is_space have "line_break \<notin> set name" by blast
  then have "line_break \<notin> set (template_of (spec_category (ed_subject e) (ed_body e)) name)"
    by (rule templates_no_line_break)
  with generate_eq_template [OF n] assms show ?thesis by simp
qed

lemma coffee_reply: "generate_improved_mock_reply coffee_mail = Inr (reply_social ''Jane'')"
  using jane_name
  by (simp add: generate_improved_mock_reply_def coffee_mail_def scan_content_def
                lower_def lower_char_def is_upper_def any_word_in_def)

text \<open>
  C5.  The claim is that the template reply is one string whose greeting, paragraphs and
  signature are separated by line-break characters.  The f-strings of lines 335 to 363
  write the separator as an escaped backslash followed by \<open>n\<close>, so the reply holds those
  two characters and no line feed: for the message "Quick coffee?" from Jane Doe the reply
  starts with \<open>Dear Jane,\<close>, a backslash and \<open>n\<close>, and contains no line break at all
  (\<open>template_reply_has_no_line_break\<close> shows the same for every reply the generator
  returns).
\<close>

theorem template_reply_without_line_breaks:
  "generate_improved_mock_reply coffee_mail = Inr (reply_social ''Jane'')
   \<and> line_break \<notin> set (reply_social ''Jane'')
   \<and> startswith (''Dear Jane,'' @ esc_n) (reply_social ''Jane'')
   \<and> \<not> startswith (''Dear Jane,'' @ [line_break]) (reply_social ''Jane'')
   \<and> contains (esc_n @ ''Best regards,'' @ esc_n) (reply_social ''Jane'')"
proof -
  have 1: "line_break \<notin> set (reply_social ''Jane'')"
    by (simp add: reply_social_def esc_n_def line_break_def)
  have 2: "startswith (''Dear Jane,'' @ esc_n) (reply_social ''Jane'')"
    by (simp add: reply_social_def esc_n_def)
  have 3: "\<not> startswith (''Dear Jane,'' @ [line_break]) (reply_social ''Jane'')"
    by (simp add: reply_social_def esc_n_def line_break_def)
  have 4: "contains (esc_n @ ''Best regards,'' @ esc_n) (reply_social ''Jane'')"
    unfolding contains_iff reply_social_def by (metis append.assoc)
  from coffee_reply 1 2 3 4 show ?thesis by simp
qed

section \<open>The generation service\<close>









lemma gemini_failure_log:
  assumes "extract_sender_name (ed_sender e) = Inr name"
    and "gemini_model st"
    and "generate_content world (length (prompts st))
           (gemini_prompt name (ed_subject e) (take 500 (ed_body e))) = Raises txt"
  shows "logs (snd (generate_gemini_reply world e st))
           = logs st @ [(ERROR, ''Gemini reply generation failed: '' @ txt)]"
  using assms by (simp add: generate_gemini_reply_def Let_def logger_error_def)

lemma setup_gemini_log:
  "\<exists>lvl msg. logs (snd (setup_gemini cfg world st)) = logs st @ [(lvl, msg)]
     \<and> msg \<in> {''Google Generative AI library not available - using mock responses'',
               ''No Gemini API key configured - using mock responses'',
               ''Failed to setup Gemini - check API key configuration'',
               ''Google Gemini (gemini-2.5-flash) initialized successfully''}"
  by (cases "setup_response world")
     (simp_all add: setup_gemini_def logger_info_def logger_error_def)

text \<open>
  C6.  The claim is that a failing service call leaves no trace of the error payload or of
  the credential in the log.  \<open>generate_gemini_reply\<close> logs the text of the exception
  (line 314), unlike \<open>setup_gemini\<close>, whose handler logs a fixed message
  (\<open>setup_gemini_log\<close>): when the service rejects the call with a message that quotes the
  key, the log line holds that message and the key.
\<close>

theorem gemini_failure_logs_error_text:
  "logs (snd (generate_gemini_reply failing_service_world coffee_mail connected_agent))
     = [(ERROR, ''Gemini reply generation failed: 403 API key secret-key rejected'')]
   \<and> api_key demo_config = ''secret-key''
   \<and> contains (api_key demo_config)
        (snd (last (logs (snd (generate_gemini_reply failing_service_world coffee_mail
                                connected_agent)))))"
proof -
  have n: "extract_sender_name (ed_sender coffee_mail) = Inr ''Jane''"
    using jane_name by (simp add: coffee_mail_def)
  have l: "logs (snd (generate_gemini_reply failing_service_world coffee_mail connected_agent))
     = [(ERROR, ''Gemini reply generation failed: 403 API key secret-key rejected'')]"
    using gemini_failure_log [OF n, of connected_agent failing_service_world
                                 "''403 API key secret-key rejected''"]
    by (simp add: connected_agent_def init_agent_def failing_service_world_def)
  have c: "contains ''secret-key'' ''Gemini reply generation failed: 403 API key secret-key rejected''"
    by simp
  from l c show ?thesis by (simp add: demo_config_def)
qed

section \<open>The mail client\<close>





text \<open>
  C8 as stated: every send re-establishes an absent submission session before sending.
  \<open>send_reply\<close> returns \<open>False\<close> at its guard of line 394: with no session it neither
  connects nor sends, even when the servers would accept the connection.
\<close>

theorem send_reply_no_reconnect_counterexample:
  "smtp_conn init_agent = None
   \<and> connect_response friendly_world = ConnectOk
   \<and> send_reply demo_config friendly_world coffee_mail ''On my way'' init_agent
       = (False, init_agent\<lparr>send_calls := [SendReply coffee_mail ''On my way'']\<rparr>)
   \<and> smtp_conn (snd (send_reply demo_config friendly_world coffee_mail ''On my way'' init_agent))
       = None
   \<and> wire (snd (send_reply demo_config friendly_world coffee_mail ''On my way'' init_agent)) = []"
  by (simp add: send_reply_def init_agent_def friendly_world_def)

lemma connect_ok:
  "connect_response world = ConnectOk \<Longrightarrow>
   smtp_conn (snd (connect_email world st)) = Some (Session True)
   \<and> wire (snd (connect_email world st)) = wire st
   \<and> send_calls (snd (connect_email world st)) = send_calls st"
  by (simp add: connect_email_def logger_info_def Let_def)

lemma connect_keeps_traces:
  "wire (snd (connect_email world st)) = wire st
   \<and> send_calls (snd (connect_email world st)) = send_calls st
   \<and> processed_emails (snd (connect_email world st)) = processed_emails st"
  by (cases "connect_response world")
     (simp_all add: connect_email_def logger_info_def logger_error_def Let_def)

lemma send_reply_no_session:
  "smtp_conn st = None \<Longrightarrow>
   send_reply cfg world e reply_text st
     = (False, st\<lparr>send_calls := send_calls st @ [SendReply e reply_text]\<rparr>)"
  by (simp add: send_reply_def Let_def)

lemma send_reply_serialized:
  assumes "smtp_conn st \<noteq> None"
    and "as_string world (reply_message cfg e reply_text) = Returns ()"
  shows "wire (snd (send_reply cfg world e reply_text st))
           = wire st @ [(cfg_email cfg, ed_sender e, reply_message cfg e reply_text)]"
    and "fst (send_reply cfg world e reply_text st)
           = (sendmail world (length (wire st))
                (cfg_email cfg, ed_sender e, reply_message cfg e reply_text) = Returns ())"
  using assms
  by (auto simp: send_reply_def Let_def logger_info_def logger_error_def
           split: outcome.splits option.splits)

lemma send_reply_not_serialized:
  assumes "smtp_conn st \<noteq> None"
    and "as_string world (reply_message cfg e reply_text) = Raises errtext"
  shows "fst (send_reply cfg world e reply_text st) = False"
    and "wire (snd (send_reply cfg world e reply_text st)) = wire st"
  using assms
  by (auto simp: send_reply_def Let_def logger_error_def split: option.splits)

lemma send_custom_session:
  assumes "smtp_conn st \<noteq> None \<or> connect_response world = ConnectOk"
  shows "\<exists>session st1.
           (if smtp_conn (st\<lparr>send_calls := send_calls st @ [SendCustom recipient subject body]\<rparr>)
                 = None
            then snd (connect_email world
                        (st\<lparr>send_calls := send_calls st @ [SendCustom recipient subject body]\<rparr>))
            else st\<lparr>send_calls := send_calls st @ [SendCustom recipient subject body]\<rparr>) = st1
           \<and> smtp_conn st1 = Some session \<and> wire st1 = wire st"
proof (cases "smtp_conn st")
  case (Some c)
  then show ?thesis by simp
next
  case None
  with assms have ok: "connect_response world = ConnectOk" by simp
  let ?st0 = "st\<lparr>send_calls := send_calls st @ [SendCustom recipient subject body]\<rparr>"
  from connect_ok [OF ok, of ?st0] None show ?thesis by simp
qed

lemma send_custom_serialized:
  assumes "smtp_conn st \<noteq> None \<or> connect_response world = ConnectOk"
    and "as_string world (custom_message cfg recipient subject body) = Returns ()"
  shows "wire (snd (send_custom_email cfg world recipient subject body st))
           = wire st @ [(cfg_email cfg, Str recipient,
                         custom_message cfg recipient subject body)]"
    and "fst (send_custom_email cfg world recipient subject body st)
           = (sendmail world (length (wire st))
                (cfg_email cfg, Str recipient, custom_message cfg recipient subject body)
              = Returns ())"
proof -
  from send_custom_session [OF assms(1), of recipient subject body]
  obtain session st1 where
    s: "(if smtp_conn (st\<lparr>send_calls := send_calls st @ [SendCustom recipient subject body]\<rparr>)
              = None
         then snd (connect_email world
                     (st\<lparr>send_calls := send_calls st @ [SendCustom recipient subject body]\<rparr>))
         else st\<lparr>send_calls := send_calls st @ [SendCustom recipient subject body]\<rparr>) = st1"
    and c: "smtp_conn st1 = Some session" and w: "wire st1 = wire st"
    by blast
  show "wire (snd (send_custom_email cfg world recipient subject body st))
           = wire st @ [(cfg_email cfg, Str recipient,
                         custom_message cfg recipient subject body)]"
    unfolding send_custom_email_def Let_def s
    using c w assms(2)
    by (simp add: logger_info_def logger_error_def split: outcome.splits)
  show "fst (send_custom_email cfg world recipient subject body st)
           = (sendmail world (length (wire st))
                (cfg_email cfg, Str recipient, custom_message cfg recipient subject body)
              = Returns ())"
    unfolding send_custom_email_def Let_def s
    using c w assms(2)
    by (simp add: logger_info_def logger_error_def split: outcome.splits)
qed

lemma send_custom_not_serialized:
  assumes "as_string world (custom_message cfg recipient subject body) = Raises errtext"
  shows "fst (send_custom_email cfg world recipient subject body st) = False"
    and "wire (snd (send_custom_email cfg world recipient subject body st)) = wire st"
proof -
  let ?st0 = "st\<lparr>send_calls := send_calls st @ [SendCustom recipient subject body]\<rparr>"
  have w: "wire (snd (connect_email world ?st0)) = wire st"
    using connect_keeps_traces [of world ?st0] by simp
  show "fst (send_custom_email cfg world recipient subject body st) = False"
    using assms
    by (simp add: send_custom_email_def Let_def split: option.splits)
  show "wire (snd (send_custom_email cfg world recipient subject body st)) = wire st"
    using assms w
    by (simp add: send_custom_email_def Let_def logger_error_def split: option.splits)
qed

lemma send_custom_reconnects:
  assumes "smtp_conn st = None" and "connect_response world = ConnectOk"
  shows "smtp_conn (snd (send_custom_email cfg world recipient subject body st))
           = Some (Session True)"
proof -
  let ?st0 = "st\<lparr>send_calls := send_calls st @ [SendCustom recipient subject body]\<rparr>"
  from assms connect_ok [of world ?st0] show ?thesis
    by (simp add: send_custom_email_def Let_def logger_info_def logger_error_def
             split: outcome.splits option.splits)
qed

text \<open>
  C8 as amended.  \<open>send_reply\<close>, when the submission session is absent, returns
  \<open>False\<close> at once, without connecting and without sending; \<open>send_custom_email\<close>, when
  the session is absent, calls \<open>connect_email\<close> first and, when that succeeds, goes on
  with the new session.  With a session, each of them builds the message and serializes
  it: when that returns, the message is handed to \<open>sendmail\<close>, and the result says
  whether \<open>sendmail\<close> returned; when serializing raises, nothing is handed to
  \<open>sendmail\<close> and the result is \<open>False\<close>.  The message is a \<open>multipart/mixed\<close>
  container whose headers are, in order, Content-Type, MIME-Version, From, To and
  Subject (the subject prefixed with \<open>Re: \<close> in \<open>send_reply\<close>), and whose only part is
  the body as \<open>text/plain\<close>.
\<close>

theorem send_operations:
  "(smtp_conn st = None \<longrightarrow>
      send_reply cfg world e reply_text st
        = (False, st\<lparr>send_calls := send_calls st @ [SendReply e reply_text]\<rparr>))
   \<and> (smtp_conn st \<noteq> None
       \<and> as_string world (reply_message cfg e reply_text) = Returns () \<longrightarrow>
      wire (snd (send_reply cfg world e reply_text st))
        = wire st @ [(cfg_email cfg, ed_sender e, reply_message cfg e reply_text)]
      \<and> fst (send_reply cfg world e reply_text st)
        = (sendmail world (length (wire st))
             (cfg_email cfg, ed_sender e, reply_message cfg e reply_text) = Returns ()))
   \<and> (smtp_conn st \<noteq> None
       \<and> as_string world (reply_message cfg e reply_text) = Raises errtext \<longrightarrow>
      fst (send_reply cfg world e reply_text st) = False
      \<and> wire (snd (send_reply cfg world e reply_text st)) = wire st)
   \<and> (smtp_conn st = None \<and> connect_response world = ConnectOk \<longrightarrow>
      smtp_conn (snd (send_custom_email cfg world recipient subject body st))
        = Some (Session True))
   \<and> ((smtp_conn st \<noteq> None \<or> connect_response world = ConnectOk)
       \<and> as_string world (custom_message cfg recipient subject body) = Returns () \<longrightarrow>
      wire (snd (send_custom_email cfg world recipient subject body st))
        = wire st @ [(cfg_email cfg, Str recipient, custom_message cfg recipient subject body)]
      \<and> fst (send_custom_email cfg world recipient subject body st)
        = (sendmail world (length (wire st))
             (cfg_email cfg, Str recipient, custom_message cfg recipient subject body)
           = Returns ()))
   \<and> (as_string world (custom_message cfg recipient subject body) = Raises errtext \<longrightarrow>
      fst (send_custom_email cfg world recipient subject body st) = False
      \<and> wire (snd (send_custom_email cfg world recipient subject body st)) = wire st)
   \<and> map fst (mm_headers (build_message from_addr to_addr subj text))
       = [''Content-Type'', ''MIME-Version'', ''From'', ''To'', ''Subject'']
   \<and> map_of (mm_headers (build_message from_addr to_addr subj text)) ''Content-Type''
       = Some (Str ''multipart/mixed'')
   \<and> map_of (mm_headers (build_message from_addr to_addr subj text)) ''From''
       = Some (Str from_addr)
   \<and> map_of (mm_headers (build_message from_addr to_addr subj text)) ''To'' = Some to_addr
   \<and> map_of (mm_headers (build_message from_addr to_addr subj text)) ''Subject''
       = Some (Str subj)
   \<and> map mt_content_type (mm_parts (build_message from_addr to_addr subj text))
       = [''text/plain'']
   \<and> map mt_text (mm_parts (build_message from_addr to_addr subj text)) = [text]"
proof -
  have 1: "smtp_conn st = None \<longrightarrow>
      send_reply cfg world e reply_text st
        = (False, st\<lparr>send_calls := send_calls st @ [SendReply e reply_text]\<rparr>)"
    using send_reply_no_session by blast
  have 2: "smtp_conn st \<noteq> None
       \<and> as_string world (reply_message cfg e reply_text) = Returns () \<longrightarrow>
      wire (snd (send_reply cfg world e reply_text st))
        = wire st @ [(cfg_email cfg, ed_sender e, reply_message cfg e reply_text)]
      \<and> fst (send_reply cfg world e reply_text st)
        = (sendmail world (length (wire st))
             (cfg_email cfg, ed_sender e, reply_message cfg e reply_text) = Returns ())"
    using send_reply_serialized [of st world cfg e reply_text] by blast
  have 3: "smtp_conn st \<noteq> None
       \<and> as_string world (reply_message cfg e reply_text) = Raises errtext \<longrightarrow>
      fst (send_reply cfg world e reply_text st) = False
      \<and> wire (snd (send_reply cfg world e reply_text st)) = wire st"
    using send_reply_not_serialized [of st world cfg e reply_text errtext] by blast
  have 4: "smtp_conn st = None \<and> connect_response world = ConnectOk \<longrightarrow>
      smtp_conn (snd (send_custom_email cfg world recipient subject body st))
        = Some (Session True)"
    using send_custom_reconnects [of st world cfg recipient subject body] by blast
  have 5: "(smtp_conn st \<noteq> None \<or> connect_response world = ConnectOk)
       \<and> as_string world (custom_message cfg recipient subject body) = Returns () \<longrightarrow>
      wire (snd (send_custom_email cfg world recipient subject body st))
        = wire st @ [(cfg_email cfg, Str recipient, custom_message cfg recipient subject body)]
      \<and> fst (send_custom_email cfg world recipient subject body st)
        = (sendmail world (length (wire st))
             (cfg_email cfg, Str recipient, custom_message cfg recipient subject body)
           = Returns ())"
    using send_custom_serialized [of st world cfg recipient subject body] by blast
  have 6: "as_string world (custom_message cfg recipient subject body) = Raises errtext \<longrightarrow>
      fst (send_custom_email cfg world recipient subject body st) = False
      \<and> wire (snd (send_custom_email cfg world recipient subject body st)) = wire st"
    using send_custom_not_serialized [of world cfg recipient subject body errtext st] by blast
  have 7: "map fst (mm_headers (build_message from_addr to_addr subj text))
       = [''Content-Type'', ''MIME-Version'', ''From'', ''To'', ''Subject'']
   \<and> map_of (mm_headers (build_message from_addr to_addr subj text)) ''Content-Type''
       = Some (Str ''multipart/mixed'')
   \<and> map_of (mm_headers (build_message from_addr to_addr subj text)) ''From''
       = Some (Str from_addr)
   \<and> map_of (mm_headers (build_message from_addr to_addr subj text)) ''To'' = Some to_addr
   \<and> map_of (mm_headers (build_message from_addr to_addr subj text)) ''Subject''
       = Some (Str subj)
   \<and> map mt_content_type (mm_parts (build_message from_addr to_addr subj text))
       = [''text/plain'']
   \<and> map mt_text (mm_parts (build_message from_addr to_addr subj text)) = [text]"
    by (simp add: build_message_def plain_text_part_def)
  from 1 2 3 4 5 6 7 show ?thesis by (simp only: simp_thms)
qed

lemma strict_refuses_reply:
  "as_string strict_headers_world (reply_message demo_config injected_mail ''On my way'')
     = Raises ''header value appears to contain an embedded header''"
  by (simp add: strict_headers_world_def build_message_def injected_mail_def
                injected_subject_def demo_config_def line_break_def)

lemma strict_refuses_custom:
  "as_string strict_headers_world
     (custom_message demo_config ''bob@example.com'' injected_subject ''Hi Bob'')
     = Raises ''header value appears to contain an embedded header''"
  by (simp add: strict_headers_world_def build_message_def
                injected_subject_def demo_config_def line_break_def)

theorem send_operations_witness:
  "smtp_conn init_agent = None
   \<and> smtp_conn connected_agent \<noteq> None
   \<and> connect_response friendly_world = ConnectOk
   \<and> as_string friendly_world (reply_message demo_config coffee_mail ''On my way'') = Returns ()
   \<and> as_string friendly_world (custom_message demo_config ''bob@example.com'' ''Hello'' ''Hi Bob'')
       = Returns ()
   \<and> as_string strict_headers_world (reply_message demo_config injected_mail ''On my way'')
       = Raises ''header value appears to contain an embedded header''
   \<and> as_string strict_headers_world
        (custom_message demo_config ''bob@example.com'' injected_subject ''Hi Bob'')
       = Raises ''header value appears to contain an embedded header''
   \<and> send_reply demo_config friendly_world coffee_mail ''On my way'' init_agent
       = (False, init_agent\<lparr>send_calls := send_calls init_agent
                                @ [SendReply coffee_mail ''On my way'']\<rparr>)
   \<and> wire (snd (send_reply demo_config friendly_world coffee_mail ''On my way'' connected_agent))
       = wire connected_agent
         @ [(cfg_email demo_config, ed_sender coffee_mail,
             reply_message demo_config coffee_mail ''On my way'')]
   \<and> fst (send_reply demo_config friendly_world coffee_mail ''On my way'' connected_agent)
   \<and> fst (send_reply demo_config strict_headers_world injected_mail ''On my way''
            connected_agent) = False
   \<and> wire (snd (send_reply demo_config strict_headers_world injected_mail ''On my way''
                   connected_agent)) = wire connected_agent
   \<and> smtp_conn (snd (send_custom_email demo_config friendly_world ''bob@example.com''
                        ''Hello'' ''Hi Bob'' init_agent))
       = Some (Session True)
   \<and> wire (snd (send_custom_email demo_config friendly_world ''bob@example.com''
                   ''Hello'' ''Hi Bob'' init_agent))
       = wire init_agent
         @ [(cfg_email demo_config, Str ''bob@example.com'',
             custom_message demo_config ''bob@example.com'' ''Hello'' ''Hi Bob'')]
   \<and> fst (send_custom_email demo_config friendly_world ''bob@example.com''
            ''Hello'' ''Hi Bob'' init_agent)
   \<and> fst (send_custom_email demo_config strict_headers_world ''bob@example.com''
            injected_subject ''Hi Bob'' connected_agent) = False
   \<and> wire (snd (send_custom_email demo_config strict_headers_world ''bob@example.com''
                   injected_subject ''Hi Bob'' connected_agent)) = wire connected_agent"
proof -
  have a: "smtp_conn init_agent = None" by (simp add: init_agent_def)
  have b: "smtp_conn connected_agent \<noteq> None" by (simp add: connected_agent_def init_agent_def)
  have c: "connect_response friendly_world = ConnectOk" by (simp add: friendly_world_def)
  have f: "as_string friendly_world msg = Returns ()" for msg
    by (simp add: friendly_world_def)
  have m: "sendmail friendly_world k call = Returns ()" for k call
    by (simp add: friendly_world_def)
  note t1 = send_operations [of init_agent demo_config friendly_world coffee_mail "''On my way''"
                               _ "''bob@example.com''" "''Hello''" "''Hi Bob''"]
  note t2 = send_operations [of connected_agent demo_config friendly_world coffee_mail
                               "''On my way''"]
  note t3 = send_operations [of connected_agent demo_config strict_headers_world injected_mail
                               "''On my way''"
                               "''header value appears to contain an embedded header''"
                               "''bob@example.com''" injected_subject "''Hi Bob''"]
  have 1: "send_reply demo_config friendly_world coffee_mail ''On my way'' init_agent
       = (False, init_agent\<lparr>send_calls := send_calls init_agent
                                @ [SendReply coffee_mail ''On my way'']\<rparr>)"
    using t1 [THEN conjunct1] a by (rule mp)
  have p2: "smtp_conn connected_agent \<noteq> None
            \<and> as_string friendly_world (reply_message demo_config coffee_mail ''On my way'')
                = Returns ()"
    using b f by simp
  note r2 = mp [OF t2 [THEN conjunct2, THEN conjunct1] p2]
  have 2: "wire (snd (send_reply demo_config friendly_world coffee_mail
                                    ''On my way'' connected_agent))
       = wire connected_agent
         @ [(cfg_email demo_config, ed_sender coffee_mail,
             reply_message demo_config coffee_mail ''On my way'')]"
    using r2 by (rule conjunct1)
  have 3: "fst (send_reply demo_config friendly_world coffee_mail ''On my way''
                          connected_agent)"
    using r2 [THEN conjunct2] m by simp
  have p3: "smtp_conn connected_agent \<noteq> None
            \<and> as_string strict_headers_world
                 (reply_message demo_config injected_mail ''On my way'')
                = Raises ''header value appears to contain an embedded header''"
    using b strict_refuses_reply by simp
  note r3 = mp [OF t3 [THEN conjunct2, THEN conjunct2, THEN conjunct1] p3]
  have 4: "fst (send_reply demo_config strict_headers_world injected_mail ''On my way''
                  connected_agent) = False"
    using r3 by (rule conjunct1)
  have 5: "wire (snd (send_reply demo_config strict_headers_world injected_mail ''On my way''
                   connected_agent)) = wire connected_agent"
    using r3 by (rule conjunct2)
  have p4: "smtp_conn init_agent = None \<and> connect_response friendly_world = ConnectOk"
    using a c by simp
  have 6: "smtp_conn (snd (send_custom_email demo_config friendly_world
                          ''bob@example.com'' ''Hello'' ''Hi Bob'' init_agent))
       = Some (Session True)"
    using t1 [THEN conjunct2, THEN conjunct2, THEN conjunct2, THEN conjunct1] p4 by (rule mp)
  have p5: "(smtp_conn init_agent \<noteq> None \<or> connect_response friendly_world = ConnectOk)
            \<and> as_string friendly_world
                 (custom_message demo_config ''bob@example.com'' ''Hello'' ''Hi Bob'')
                = Returns ()"
    using c f by simp
  note r5 = mp [OF t1 [THEN conjunct2, THEN conjunct2, THEN conjunct2, THEN conjunct2,
                       THEN conjunct1] p5]
  have 7: "wire (snd (send_custom_email demo_config friendly_world
                          ''bob@example.com'' ''Hello'' ''Hi Bob'' init_agent))
       = wire init_agent
         @ [(cfg_email demo_config, Str ''bob@example.com'',
             custom_message demo_config ''bob@example.com'' ''Hello'' ''Hi Bob'')]"
    using r5 by (rule conjunct1)
  have 8: "fst (send_custom_email demo_config friendly_world ''bob@example.com''
            ''Hello'' ''Hi Bob'' init_agent)"
    using r5 [THEN conjunct2] m by simp
  note r6 = mp [OF t3 [THEN conjunct2, THEN conjunct2, THEN conjunct2, THEN conjunct2,
                       THEN conjunct2, THEN conjunct1] strict_refuses_custom]
  have 9: "fst (send_custom_email demo_config strict_headers_world ''bob@example.com''
            injected_subject ''Hi Bob'' connected_agent) = False"
    using r6 by (rule conjunct1)
  have 10: "wire (snd (send_custom_email demo_config strict_headers_world ''bob@example.com''
                   injected_subject ''Hi Bob'' connected_agent)) = wire connected_agent"
    using r6 by (rule conjunct2)
  from a b c f [of "reply_message demo_config coffee_mail ''On my way''"]
    f [of "custom_message demo_config ''bob@example.com'' ''Hello'' ''Hi Bob''"]
    strict_refuses_reply strict_refuses_custom 1 2 3 4 5 6 7 8 9 10
  show ?thesis by (simp only: simp_thms)
qed

section \<open>The chat front end\<close>

lemma send_custom_calls:
  "send_calls (snd (send_custom_email cfg world recipient subject body st))
     = send_calls st @ [SendCustom recipient subject body]"
proof -
  let ?st0 = "st\<lparr>send_calls := send_calls st @ [SendCustom recipient subject body]\<rparr>"
  have c: "send_calls (snd (connect_email world ?st0)) = send_calls ?st0"
    using connect_keeps_traces [of world ?st0] by blast
  show ?thesis
    using c
    by (simp add: send_custom_email_def Let_def logger_info_def logger_error_def
             split: outcome.splits option.splits)
qed

lemma no_draft_update: "pending_emails b user = None \<Longrightarrow>
  b\<lparr>pending_emails := (pending_emails b)(user := None)\<rparr> = b"
proof -
  assume "pending_emails b user = None"
  then have "(pending_emails b)(user := None) = pending_emails b"
    by (metis fun_upd_triv)
  then show ?thesis by simp
qed

lemma approve_with_draft:
  assumes "pending_emails b user = Some (recipient, subject, body)"
  shows "approve_command cfg world user b
           = ([if fst (send_custom_email cfg world recipient subject body (agent b))
               then EmailSent else EmailFailed],
              b\<lparr>pending_emails := (pending_emails b)(user := None),
                agent := snd (send_custom_email cfg world recipient subject body (agent b))\<rparr>)"
  using assms by (simp add: approve_command_def Let_def split: prod.splits)

text \<open>
  C9.  With no pending draft for the operator, \<open>/cancel\<close> and \<open>/approve\<close> answer that
  nothing is pending and leave the whole state, the draft map included, as it was.  After
  a \<open>/mail\<close> with a recipient and a text, \<open>/approve\<close> removes the operator's draft
  and calls \<open>send_custom_email\<close> exactly once, with that draft.
\<close>

theorem draft_lifecycle:
  "(pending_emails b user = None \<longrightarrow>
      cancel_command user b = ([NoPendingCancel], b)
      \<and> approve_command cfg world user b = ([NoPendingApprove], b))
   \<and> (2 \<le> length args \<longrightarrow>
      pending_emails (snd (approve_command cfg world user (snd (mail_command user args b)))) user
        = None
      \<and> send_calls (agent (snd (approve_command cfg world user (snd (mail_command user args b)))))
        = send_calls (agent b)
          @ [SendCustom (args ! 0) ''Message from Telegram'' (join '' '' (drop 1 args))])"
proof -
  have 1: "pending_emails b user = None \<longrightarrow>
      cancel_command user b = ([NoPendingCancel], b)
      \<and> approve_command cfg world user b = ([NoPendingApprove], b)"
    using no_draft_update [of b user]
    by (simp add: cancel_command_def approve_command_def Let_def)
  have 2: "2 \<le> length args \<longrightarrow>
      pending_emails (snd (approve_command cfg world user (snd (mail_command user args b)))) user
        = None
      \<and> send_calls (agent (snd (approve_command cfg world user (snd (mail_command user args b)))))
        = send_calls (agent b)
          @ [SendCustom (args ! 0) ''Message from Telegram'' (join '' '' (drop 1 args))]"
  proof
    assume len: "2 \<le> length args"
    let ?b1 = "snd (mail_command user args b)"
    from len have p: "pending_emails ?b1 user
        = Some (args ! 0, ''Message from Telegram'', join '' '' (drop 1 args))"
      by (simp add: mail_command_def Let_def)
    from len have a: "agent ?b1 = agent b" by (simp add: mail_command_def Let_def)
    show "pending_emails (snd (approve_command cfg world user ?b1)) user = None
      \<and> send_calls (agent (snd (approve_command cfg world user ?b1)))
        = send_calls (agent b)
          @ [SendCustom (args ! 0) ''Message from Telegram'' (join '' '' (drop 1 args))]"
      using approve_with_draft [OF p, of cfg world] a send_custom_calls by simp
  qed
  from 1 2 show ?thesis by blast
qed

theorem draft_lifecycle_witness:
  "pending_emails demo_bot 42 = None
   \<and> 2 \<le> length [''bob@example.com'', ''Hi'', ''Bob'']
   \<and> cancel_command 42 demo_bot = ([NoPendingCancel], demo_bot)
   \<and> approve_command demo_config friendly_world 42 demo_bot = ([NoPendingApprove], demo_bot)
   \<and> pending_emails (snd (approve_command demo_config friendly_world 42
        (snd (mail_command 42 [''bob@example.com'', ''Hi'', ''Bob''] demo_bot)))) 42 = None
   \<and> send_calls (agent (snd (approve_command demo_config friendly_world 42
        (snd (mail_command 42 [''bob@example.com'', ''Hi'', ''Bob''] demo_bot)))))
       = [SendCustom ''bob@example.com'' ''Message from Telegram'' ''Hi Bob'']"
proof -
  have a: "pending_emails demo_bot 42 = None" by (simp add: demo_bot_def)
  have s: "send_calls (agent demo_bot) = []"
    by (simp add: demo_bot_def connected_agent_def init_agent_def)
  from a s draft_lifecycle [of demo_bot 42 demo_config friendly_world
                               "[''bob@example.com'', ''Hi'', ''Bob'']"]
  show ?thesis by simp
qed

text \<open>
  C10.  \<open>/approve\<close> pops the draft before it sends: when the send fails, the answer is
  the failure message, the draft is gone from the map, and a later \<open>/approve\<close>, whatever
  the servers do then, only answers that nothing is pending.
\<close>

theorem approve_discards_draft_on_failure:
  "pending_emails b user = Some (recipient, subject, body)
   \<and> fst (send_custom_email cfg world recipient subject body (agent b)) = False
   \<longrightarrow> fst (approve_command cfg world user b) = [EmailFailed]
       \<and> pending_emails (snd (approve_command cfg world user b)) user = None
       \<and> approve_command cfg later_world user (snd (approve_command cfg world user b))
           = ([NoPendingApprove], snd (approve_command cfg world user b))"
proof
  assume h: "pending_emails b user = Some (recipient, subject, body)
   \<and> fst (send_custom_email cfg world recipient subject body (agent b)) = False"
  let ?b2 = "snd (approve_command cfg world user b)"
  from h have p: "pending_emails b user = Some (recipient, subject, body)" by simp
  from h approve_with_draft [OF p, of cfg world]
  have r: "fst (approve_command cfg world user b) = [EmailFailed]"
    and n: "pending_emails ?b2 user = None"
    by simp_all
  from n have "approve_command cfg later_world user ?b2 = ([NoPendingApprove], ?b2)"
    using no_draft_update [of ?b2 user] by (simp add: approve_command_def Let_def)
  with r n show "fst (approve_command cfg world user b) = [EmailFailed]
       \<and> pending_emails ?b2 user = None
       \<and> approve_command cfg later_world user ?b2 = ([NoPendingApprove], ?b2)"
    by simp
qed

lemma smtp_down_send_fails:
  "fst (send_custom_email demo_config smtp_down_world ''bob@example.com''
          ''Message from Telegram'' ''Hi Bob'' (agent drafted_bot)) = False"
  by (simp add: send_custom_email_def Let_def drafted_bot_def demo_bot_def connected_agent_def
                init_agent_def smtp_down_world_def logger_error_def)

theorem approve_discards_draft_on_failure_witness:
  "pending_emails drafted_bot 42
     = Some (''bob@example.com'', ''Message from Telegram'', ''Hi Bob'')
   \<and> fst (send_custom_email demo_config smtp_down_world ''bob@example.com''
            ''Message from Telegram'' ''Hi Bob'' (agent drafted_bot)) = False
   \<and> fst (approve_command demo_config smtp_down_world 42 drafted_bot) = [EmailFailed]
   \<and> pending_emails (snd (approve_command demo_config smtp_down_world 42 drafted_bot)) 42 = None
   \<and> fst (approve_command demo_config friendly_world 42
            (snd (approve_command demo_config smtp_down_world 42 drafted_bot)))
       = [NoPendingApprove]"
proof -
  have p: "pending_emails drafted_bot 42
     = Some (''bob@example.com'', ''Message from Telegram'', ''Hi Bob'')"
    by (simp add: drafted_bot_def)
  from p smtp_down_send_fails
    approve_discards_draft_on_failure [of drafted_bot 42 "''bob@example.com''"
      "''Message from Telegram''" "''Hi Bob''" demo_config smtp_down_world friendly_world]
  show ?thesis by simp
qed


section \<open>The poll cycle\<close>

lemma skip_message_frame:
  "processed_emails (skip_message email_id errtext st) = processed_emails st"
  "send_calls (skip_message email_id errtext st) = send_calls st"
  "imap_conn (skip_message email_id errtext st) = imap_conn st"
  by (simp_all add: skip_message_def logger_warning_def)

lemma fetch_loop_step:
  assumes "email_id \<notin> processed_emails st"
  shows "fetch_loop ((email_id, out) # rest) new st = fetch_loop rest new st
         \<or> (\<exists>errtext. fetch_loop ((email_id, out) # rest) new st
                        = fetch_loop rest new (skip_message email_id errtext st))
         \<or> (\<exists>e line. ed_id e = email_id
               \<and> fetch_loop ((email_id, out) # rest) new st
                   = fetch_loop rest (new @ [e])
                       (logger_info line
                          (st\<lparr>processed_emails := insert email_id (processed_emails st)\<rparr>)))"
proof (cases out)
  case FetchNotOK
  with assms show ?thesis by simp
next
  case (FetchRaises errtext)
  with assms show ?thesis by auto
next
  case (Fetched subject_result sender date message)
  show ?thesis
  proof (cases subject_result)
    case (Raises errtext)
    with assms Fetched show ?thesis by auto
  next
    case (Returns subject)
    show ?thesis
    proof (cases "get_email_body message")
      case (Inl err)
      with assms Fetched Returns show ?thesis by auto
    next
      case (Inr body)
      let ?e = "\<lparr>ed_id = email_id, ed_subject = subject, ed_sender = sender,
                 ed_body = body, ed_date = date\<rparr>"
      have "ed_id ?e = email_id" by simp
      moreover have "fetch_loop ((email_id, out) # rest) new st
          = fetch_loop rest (new @ [?e])
              (logger_info (''New email from '' @ py_str sender @ '': ''
                            @ take 50 subject @ ''...'')
                 (st\<lparr>processed_emails := insert email_id (processed_emails st)\<rparr>))"
        using assms Fetched Returns Inr by simp
      ultimately show ?thesis by blast
    qed
  qed
qed

lemma fetch_loop_added:
  "\<exists>added. fst (fetch_loop ids new st) = new @ added
     \<and> distinct (map ed_id added)
     \<and> set (map ed_id added) \<inter> processed_emails st = {}
     \<and> processed_emails (snd (fetch_loop ids new st))
         = processed_emails st \<union> set (map ed_id added)
     \<and> send_calls (snd (fetch_loop ids new st)) = send_calls st
     \<and> imap_conn (snd (fetch_loop ids new st)) = imap_conn st"
proof (induction ids arbitrary: new st)
  case Nil
  have "fst (fetch_loop [] new st) = new @ []" by simp
  then show ?case by fastforce
next
  case (Cons x rest)
  obtain email_id out where x: "x = (email_id, out)" by (cases x)
  show ?case
  proof (cases "email_id \<in> processed_emails st")
    case True
    with x Cons.IH [of new st] show ?thesis by simp
  next
    case False
    from fetch_loop_step [OF False, of out rest new]
    consider (same) "fetch_loop (x # rest) new st = fetch_loop rest new st"
      | (skip) errtext where "fetch_loop (x # rest) new st
                                = fetch_loop rest new (skip_message email_id errtext st)"
      | (add) e line where "ed_id e = email_id"
          "fetch_loop (x # rest) new st
             = fetch_loop rest (new @ [e])
                 (logger_info line
                    (st\<lparr>processed_emails := insert email_id (processed_emails st)\<rparr>))"
      unfolding x by blast
    then show ?thesis
    proof cases
      case same
      with Cons.IH [of new st] show ?thesis by simp
    next
      case skip
      with Cons.IH [of new "skip_message email_id errtext st"] show ?thesis
        by (simp add: skip_message_frame)
    next
      case add
      let ?st1 = "logger_info line
                    (st\<lparr>processed_emails := insert email_id (processed_emails st)\<rparr>)"
      have p: "processed_emails ?st1 = insert email_id (processed_emails st)"
        and s: "send_calls ?st1 = send_calls st"
        and c: "imap_conn ?st1 = imap_conn st"
        by (simp_all add: logger_info_def)
      from Cons.IH [of "new @ [e]" ?st1] obtain added where
        a1: "fst (fetch_loop rest (new @ [e]) ?st1) = (new @ [e]) @ added"
        and a2: "distinct (map ed_id added)"
        and a3: "set (map ed_id added) \<inter> processed_emails ?st1 = {}"
        and a4: "processed_emails (snd (fetch_loop rest (new @ [e]) ?st1))
                   = processed_emails ?st1 \<union> set (map ed_id added)"
        and a5: "send_calls (snd (fetch_loop rest (new @ [e]) ?st1)) = send_calls ?st1"
        and a6: "imap_conn (snd (fetch_loop rest (new @ [e]) ?st1)) = imap_conn ?st1"
        by blast
      note eq = add(2)
      have b1: "fst (fetch_loop (x # rest) new st) = new @ (e # added)"
        using eq a1 by simp
      have b2: "distinct (map ed_id (e # added))"
        using a2 a3 p add(1) by auto
      have b3: "set (map ed_id (e # added)) \<inter> processed_emails st = {}"
        using a3 p False add(1) by auto
      have b4: "processed_emails (snd (fetch_loop (x # rest) new st))
                  = processed_emails st \<union> set (map ed_id (e # added))"
        using eq a4 p add(1) by auto
      have b5: "send_calls (snd (fetch_loop (x # rest) new st)) = send_calls st"
        using eq a5 s by simp
      have b6: "imap_conn (snd (fetch_loop (x # rest) new st)) = imap_conn st"
        using eq a6 c by simp
      from b1 b2 b3 b4 b5 b6 show ?thesis by blast
    qed
  qed
qed

lemma read_new_emails_seen:
  "distinct (map ed_id (fst (read_new_emails cfg world st)))
   \<and> set (map ed_id (fst (read_new_emails cfg world st))) \<inter> processed_emails st = {}
   \<and> processed_emails (snd (read_new_emails cfg world st))
       = processed_emails st \<union> set (map ed_id (fst (read_new_emails cfg world st)))
   \<and> send_calls (snd (read_new_emails cfg world st)) = send_calls st
   \<and> imap_conn (snd (read_new_emails cfg world st)) = imap_conn st"
proof (cases "imap_conn st = None")
  case True
  then show ?thesis by (simp add: read_new_emails_def)
next
  case False
  show ?thesis
  proof (cases "imap_search world")
    case (SearchRaises errtext)
    with False show ?thesis by (simp add: read_new_emails_def logger_error_def)
  next
    case SearchNotOK
    with False show ?thesis by (simp add: read_new_emails_def)
  next
    case (SearchOK email_ids)
    let ?ids = "last_slice (max_emails_per_check cfg) email_ids"
    from False SearchOK have eq: "read_new_emails cfg world st = fetch_loop ?ids [] st"
      by (auto simp: read_new_emails_def)
    from fetch_loop_added [of ?ids "[]" st] eq show ?thesis by auto
  qed
qed











lemma read_coffee_inbox:
  assumes "imap_search world = coffee_inbox" and "imap_conn st \<noteq> None"
  shows "(''1'' \<notin> processed_emails st \<longrightarrow>
            fst (read_new_emails demo_config world st) = [coffee_mail]
            \<and> processed_emails (snd (read_new_emails demo_config world st))
                = insert ''1'' (processed_emails st))
         \<and> (''1'' \<in> processed_emails st \<longrightarrow>
            read_new_emails demo_config world st = ([], st))"
  using assms coffee_body
  by (auto simp: read_new_emails_def coffee_inbox_def demo_config_def last_slice_def
                 coffee_mail_def logger_info_def Let_def)





section \<open>Listing unread messages from the chat\<close>

text \<open>
  C4 as stated: \<open>/read\<close> neither adds to the seen-set nor is filtered by it.  The handler
  calls \<open>agent.read_new_emails()\<close> (line 65): listing the coffee invitation puts its
  identifier into \<open>processed_emails\<close>, and a second \<open>/read\<close>, with the server still
  reporting the message as unseen, answers that there are no new emails.
\<close>

theorem list_unread_marks_processed_counterexample:
  "processed_emails (agent demo_bot) = {}
   \<and> processed_emails (agent (snd (read_command demo_config inbox_world 42 demo_bot))) = {''1''}
   \<and> fst (read_command demo_config inbox_world 42 demo_bot)
       = [EmailListing 1 ''Jane Doe <jane@x.com>'' ''Quick coffee?'' ''Are you free Thursday?'']
   \<and> fst (read_command demo_config inbox_world 42
            (snd (read_command demo_config inbox_world 42 demo_bot)))
       = [NoNewEmails]"
proof -
  have p: "processed_emails (agent demo_bot) = {}"
    and c: "imap_conn (agent demo_bot) \<noteq> None"
    by (simp_all add: demo_bot_def connected_agent_def init_agent_def)
  have i: "imap_search inbox_world = coffee_inbox"
    by (simp add: inbox_world_def)
  obtain emails st1 where r: "read_new_emails demo_config inbox_world (agent demo_bot) = (emails, st1)"
    by (cases "read_new_emails demo_config inbox_world (agent demo_bot)")
  from read_coffee_inbox [OF i c] p r have e: "emails = [coffee_mail]"
    and s: "processed_emails st1 = {''1''}"
    by simp_all
  have c1: "imap_conn st1 \<noteq> None"
    using read_new_emails_seen [of demo_config inbox_world "agent demo_bot"] r c by simp
  let ?b1 = "snd (read_command demo_config inbox_world 42 demo_bot)"
  have a1: "agent ?b1 = st1"
    using r e by (simp add: read_command_def Let_def)
  have l1: "fst (read_command demo_config inbox_world 42 demo_bot)
       = [EmailListing 1 ''Jane Doe <jane@x.com>'' ''Quick coffee?'' ''Are you free Thursday?'']"
    using r e by (simp add: read_command_def Let_def coffee_mail_def snippet_def line_break_def)
  have r2: "read_new_emails demo_config inbox_world (agent ?b1) = ([], agent ?b1)"
    using read_coffee_inbox [OF i, of st1] c1 s a1 by simp
  have l2: "fst (read_command demo_config inbox_world 42 ?b1) = [NoNewEmails]"
    using r2 by (simp add: read_command_def Let_def)
  from p a1 s l1 l2 show ?thesis by simp
qed

text \<open>
  C4 as amended.  \<open>/read\<close> runs \<open>read_new_emails\<close> on the seen-set of the bot's own
  agent object: it lists exactly the messages that call returns, none of which was in the
  seen-set before and all of which are in it afterwards, and it leaves the drafts alone.
\<close>

theorem list_unread_shares_seen_set:
  "agent (snd (read_command cfg world user b)) = snd (read_new_emails cfg world (agent b))
   \<and> fst (read_command cfg world user b)
       = (if fst (read_new_emails cfg world (agent b)) = [] then [NoNewEmails]
          else listings 0 (fst (read_new_emails cfg world (agent b))))
   \<and> (\<forall>e\<in>set (fst (read_new_emails cfg world (agent b))).
        ed_id e \<notin> processed_emails (agent b)
        \<and> ed_id e \<in> processed_emails (agent (snd (read_command cfg world user b))))
   \<and> pending_emails (snd (read_command cfg world user b)) = pending_emails b"
proof -
  obtain emails st1 where r: "read_new_emails cfg world (agent b) = (emails, st1)"
    by (cases "read_new_emails cfg world (agent b)")
  have 1: "agent (snd (read_command cfg world user b)) = st1"
    using r by (simp add: read_command_def Let_def)
  have 2: "fst (read_command cfg world user b)
       = (if emails = [] then [NoNewEmails] else listings 0 emails)"
    using r by (simp add: read_command_def Let_def)
  have 3: "\<forall>e\<in>set emails. ed_id e \<notin> processed_emails (agent b) \<and> ed_id e \<in> processed_emails st1"
    using read_new_emails_seen [of cfg world "agent b"] r by auto
  have 4: "pending_emails (snd (read_command cfg world user b)) = pending_emails b"
    using r by (simp add: read_command_def Let_def)
  from 1 2 3 4 r show ?thesis by simp
qed

theorem list_unread_shares_seen_set_witness:
  "fst (read_new_emails demo_config inbox_world (agent demo_bot)) = [coffee_mail]
   \<and> ed_id coffee_mail \<notin> processed_emails (agent demo_bot)
   \<and> ed_id coffee_mail
       \<in> processed_emails (agent (snd (read_command demo_config inbox_world 42 demo_bot)))
   \<and> fst (read_command demo_config inbox_world 42 demo_bot) = listings 0 [coffee_mail]"
proof -
  have p: "processed_emails (agent demo_bot) = {}"
    and c: "imap_conn (agent demo_bot) \<noteq> None"
    by (simp_all add: demo_bot_def connected_agent_def init_agent_def)
  have i: "imap_search inbox_world = coffee_inbox"
    by (simp add: inbox_world_def)
  have r: "fst (read_new_emails demo_config inbox_world (agent demo_bot)) = [coffee_mail]"
    using read_coffee_inbox [OF i c] p by simp
  have m: "coffee_mail \<in> set (fst (read_new_emails demo_config inbox_world (agent demo_bot)))"
    using r by simp
  from list_unread_shares_seen_set [of demo_config inbox_world 42 demo_bot] m
  have "ed_id coffee_mail \<notin> processed_emails (agent demo_bot)"
    and "ed_id coffee_mail
           \<in> processed_emails (agent (snd (read_command demo_config inbox_world 42 demo_bot)))"
    and "fst (read_command demo_config inbox_world 42 demo_bot)
           = (if fst (read_new_emails demo_config inbox_world (agent demo_bot)) = []
              then [NoNewEmails]
              else listings 0 (fst (read_new_emails demo_config inbox_world (agent demo_bot))))"
    by blast+
  with r show ?thesis by simp
qed

end
